(* ===== verification/Prelude.thy ===== *)
theory Prelude
  imports Main "HOL-Library.Word"
begin

text \<open>
  Shared vocabulary of the development. The repository is JavaScript (Node, Express,
  Mongoose), so the values that flow through it are JavaScript values: request bodies,
  documents read from and written to MongoDB, and the JSON sent back. They are modelled
  by one datatype \<open>jsval\<close>; an object is an association list in insertion order.
  This theory also holds JavaScript's truthiness (used by every \<open>if (!x)\<close> guard of the
  controllers), property access with \<open>undefined\<close> for a missing key, the exceptions
  the handlers raise, and the shape of an HTTP response. The collection \<open>model_defs\<close>
  gathers the definitions that evaluate a handler on a concrete request.
\<close>

named_theorems model_defs "definitions unfolded to evaluate the model on concrete inputs"

text \<open>A MongoDB ObjectId is twelve bytes.\<close>

type_synonym oid = "96 word"

datatype jsval =
    JUndefined
  | JNull
  | JBool bool
  | JNum int
  | JStr string
  | JArr "jsval list"
  | JObj "(string \<times> jsval) list"
  | JOid oid
  | JDate int

type_synonym obj = "(string \<times> jsval) list"

text \<open>
  \<open>ToBoolean\<close> of ECMAScript: \<open>undefined\<close>, \<open>null\<close>, \<open>false\<close>, \<open>0\<close> and the empty
  string are falsy; every object (arrays, ObjectIds and Dates included) is truthy.
\<close>

fun truthy :: "jsval \<Rightarrow> bool" where
  "truthy JUndefined = False"
| "truthy JNull = False"
| "truthy (JBool b) = b"
| "truthy (JNum n) = (n \<noteq> 0)"
| "truthy (JStr s) = (s \<noteq> [])"
| "truthy (JArr _) = True"
| "truthy (JObj _) = True"
| "truthy (JOid _) = True"
| "truthy (JDate _) = True"

text \<open>
  Property read \<open>o.k\<close> on an object: the last binding of the key wins, as it does in an
  object literal or in \<open>JSON.parse\<close> with a repeated key; a missing key reads
  \<open>undefined\<close>.
\<close>

fun lookup_last :: "obj \<Rightarrow> string \<Rightarrow> jsval option" where
  "lookup_last [] k = None"
| "lookup_last ((k', v) # ob) k =
     (case lookup_last ob k of None \<Rightarrow> (if k = k' then Some v else None) | Some w \<Rightarrow> Some w)"

definition get :: "obj \<Rightarrow> string \<Rightarrow> jsval" where
  "get ob k = (case lookup_last ob k of None \<Rightarrow> JUndefined | Some v \<Rightarrow> v)"

text \<open>
  Optional chaining \<open>x?.k\<close>: \<open>undefined\<close> on \<open>undefined\<close> and \<open>null\<close>, the property
  on an object, and \<open>undefined\<close> on the other primitives (none of them has the
  properties the code reads).
\<close>

fun opt_get :: "jsval \<Rightarrow> string \<Rightarrow> jsval" where
  "opt_get (JObj ob) k = get ob k"
| "opt_get _ k = JUndefined"

text \<open>The exceptions the handlers can raise.\<close>

datatype exn =
    ApiError nat string   \<comment> \<open>\<open>new ApiError(statusCode, message)\<close>\<close>
  | TypeError string      \<comment> \<open>property read on \<open>null\<close> or \<open>undefined\<close>\<close>
  | LibError string       \<comment> \<open>an error thrown inside a library call (bcrypt, MongoDB)\<close>

text \<open>
  Strict property read \<open>x.k\<close>: a \<open>TypeError\<close> on \<open>undefined\<close> and \<open>null\<close>, the
  property on an object, \<open>undefined\<close> on the other primitives.
\<close>

fun prop_read :: "jsval \<Rightarrow> string \<Rightarrow> exn + jsval" where
  "prop_read JUndefined k = Inl (TypeError (''Cannot read properties of undefined (reading '' @ k @ '')''))"
| "prop_read JNull k = Inl (TypeError (''Cannot read properties of null (reading '' @ k @ '')''))"
| "prop_read (JObj ob) k = Inr (get ob k)"
| "prop_read _ k = Inr JUndefined"

text \<open>
  Whether a key occurs anywhere in a JSON value, at any depth: what a client that
  receives the value can read.
\<close>

fun has_key :: "string \<Rightarrow> jsval \<Rightarrow> bool" where
  "has_key k (JArr vs) = (\<exists>v \<in> set vs. has_key k v)"
| "has_key k (JObj ob) = (\<exists>kv \<in> set ob. fst kv = k \<or> has_key k (snd kv))"
| "has_key k _ = False"

text \<open>
  An HTTP response: a status and a body, JSON (\<open>res.json\<close>, or \<open>res.send\<close> of an
  object or array), HTML text (\<open>res.send\<close> of a string), the page Express's
  default error handler renders for a status, or no body at all (the answer to a
  \<open>HEAD\<close> request).
\<close>

datatype body = JsonBody jsval | HtmlBody string | ErrorPage nat | NoBody

record response =
  status :: nat
  resp_body :: body

subsection \<open>Generic lemmas\<close>

lemma lookup_last_None: "(lookup_last ob k = None) = (k \<notin> fst ` set ob)"
  by (induction ob) (auto split: option.split)

lemma lookup_last_map_of: "distinct (map fst ob) \<Longrightarrow> lookup_last ob k = map_of ob k"
proof (induction ob)
  case Nil
  then show ?case by simp
next
  case (Cons p ob)
  obtain a b where p: "p = (a, b)" by (cases p)
  show ?case
  proof (cases "k = a")
    case True
    with Cons.prems p have "lookup_last ob k = None" by (simp add: lookup_last_None)
    with True p show ?thesis by simp
  next
    case False
    with Cons p show ?thesis by (simp split: option.split)
  qed
qed

lemma get_Nil [simp]: "get [] k = JUndefined"
  by (simp add: get_def)

lemma get_notin: "k \<notin> fst ` set ob \<Longrightarrow> get ob k = JUndefined"
  unfolding get_def using lookup_last_None [of ob k] by simp

lemma get_Cons [simp]:
  "get ((k', v) # ob) k = (if k \<in> fst ` set ob then get ob k else if k = k' then v else JUndefined)"
proof (cases "lookup_last ob k")
  case None
  then have "k \<notin> fst ` set ob" by (simp add: lookup_last_None)
  with None show ?thesis by (simp add: get_def)
next
  case (Some w)
  then have "k \<in> fst ` set ob" using lookup_last_None [of ob k] by simp
  with Some show ?thesis by (simp add: get_def)
qed

lemma get_map_of:
  "distinct (map fst ob) \<Longrightarrow> get ob k = (case map_of ob k of None \<Rightarrow> JUndefined | Some v \<Rightarrow> v)"
  by (simp add: get_def lookup_last_map_of)


lemma lookup_last_append:
  "lookup_last (xs @ ys) k = (case lookup_last ys k of None \<Rightarrow> lookup_last xs k | Some v \<Rightarrow> Some v)"
  by (induction xs) (auto split: option.split)

lemma get_append: "get (xs @ ys) k = (if k \<in> fst ` set ys then get ys k else get xs k)"
proof (cases "lookup_last ys k")
  case None
  then have "k \<notin> fst ` set ys" by (simp add: lookup_last_None)
  with None show ?thesis by (simp add: get_def lookup_last_append)
next
  case (Some v)
  then have "k \<in> fst ` set ys" using lookup_last_None [of ys k] by simp
  with Some show ?thesis by (simp add: get_def lookup_last_append)
qed

lemma keys_concat_keyed:
  "\<forall>g \<in> set fs. fst ` set (B g) \<subseteq> {key g} \<Longrightarrow> fst ` set (concat (map B fs)) \<subseteq> key ` set fs"
  by (induction fs) auto

lemma map_of_concat_keyed:
  assumes "distinct (map key fs)" and "\<forall>g \<in> set fs. fst ` set (B g) \<subseteq> {key g}" and "f \<in> set fs"
  shows "map_of (concat (map B fs)) (key f) = map_of (B f) (key f)"
  using assms
proof (induction fs)
  case Nil
  then show ?case by simp
next
  case (Cons g fs)
  have sub: "fst ` set (concat (map B fs)) \<subseteq> key ` set fs"
    using Cons.prems(2) by (intro keys_concat_keyed) simp
  show ?case
  proof (cases "g = f")
    case True
    with Cons.prems(1) have "key f \<notin> key ` set fs" by simp
    with sub have "map_of (concat (map B fs)) (key f) = None"
      by (auto simp: map_of_eq_None_iff)
    with True show ?thesis by (simp add: map_add_def split: option.split)
  next
    case False
    with Cons.prems(3) have f: "f \<in> set fs" by simp
    then have "key f \<in> key ` set fs" by simp
    with Cons.prems(1) have ne: "key f \<noteq> key g" by auto
    have "map_of (concat (map B fs)) (key f) = map_of (B f) (key f)"
      using Cons.IH Cons.prems f by simp
    moreover have "map_of (B g) (key f) = None"
      using Cons.prems(2) ne by (auto simp: map_of_eq_None_iff)
    ultimately show ?thesis by (simp add: map_add_def split: option.split)
  qed
qed

lemma distinct_le1: "length xs \<le> 1 \<Longrightarrow> distinct xs"
  by (cases xs) simp_all

lemma distinct_concat_keyed:
  assumes "distinct (map key fs)" and "\<forall>g \<in> set fs. length (B g) \<le> 1 \<and> fst ` set (B g) \<subseteq> {key g}"
  shows "distinct (map fst (concat (map B fs)))"
  using assms
proof (induction fs)
  case Nil
  then show ?case by simp
next
  case (Cons g fs)
  have IH: "distinct (map fst (concat (map B fs)))" using Cons.IH Cons.prems by simp
  have sub: "fst ` set (concat (map B fs)) \<subseteq> key ` set fs"
    using Cons.prems(2) by (intro keys_concat_keyed) simp
  have "key g \<notin> key ` set fs" using Cons.prems(1) by simp
  with sub have ng: "key g \<notin> fst ` set (concat (map B fs))" by (meson subsetD)
  have bg: "fst ` set (B g) \<subseteq> {key g}" using Cons.prems(2) by simp
  have disj: "set (map fst (B g)) \<inter> set (map fst (concat (map B fs))) = {}"
  proof (rule equals0I)
    fix k assume "k \<in> set (map fst (B g)) \<inter> set (map fst (concat (map B fs)))"
    then have "k = key g" and "k \<in> fst ` set (concat (map B fs))" using bg by auto
    with ng show False by simp
  qed
  have "length (map fst (B g)) \<le> 1" using Cons.prems(2) by simp
  then have "distinct (map fst (B g))" by (rule distinct_le1)
  with IH disj show ?case by (simp only: concat.simps list.map map_append distinct_append)
qed

lemma map_sum_id_Inl: "(map_sum id g s = Inl e) = (s = Inl e)"
  by (cases s) auto

lemma map_sum_id_Inr: "(map_sum id g s = Inr w) = (\<exists>x. s = Inr x \<and> w = g x)"
  by (cases s) auto

lemma map_eq_map_Inr: "map g xs = map Inr ws \<Longrightarrow> y \<in> set ws \<Longrightarrow> \<exists>x \<in> set xs. g x = Inr y"
proof -
  assume eq: "map g xs = map Inr ws" and y: "y \<in> set ws"
  then have "Inr y \<in> set (map g xs)" by simp
  then show ?thesis by auto
qed

lemma size_mem_less: "x \<in> set xs \<Longrightarrow> f x < Suc (size_list f xs)"
  by (induction xs) auto

end
