(* ===== verification/JsConv.thy ===== *)
theory JsConv
  imports Prelude
begin

text \<open>
  Conversions between JavaScript primitives that Mongoose's casting relies on:
  \<open>String(n)\<close> of an integer, \<open>Number(s)\<close> of a string (restricted to decimal
  integer literals, see below), and the BSON ObjectId's 24-digit hexadecimal form
  (\<open>ObjectId.prototype.toHexString\<close> and \<open>new ObjectId(hex)\<close>). Each printer has a
  parser and a round-trip lemma: parsing what was printed gives the value back.
\<close>

subsection \<open>Decimal integers\<close>

definition digit_char :: "nat \<Rightarrow> char" where
  "digit_char d = char_of (48 + d)"

fun dec_digits :: "nat \<Rightarrow> string" where
  "dec_digits n = (if n < 10 then [digit_char n] else dec_digits (n div 10) @ [digit_char (n mod 10)])"

declare dec_digits.simps [simp del]

text \<open>\<open>String(i)\<close> for an integer-valued JavaScript number.\<close>

definition show_int :: "int \<Rightarrow> string" where
  "show_int i = (if i < 0 then CHR ''-'' # dec_digits (nat (- i)) else dec_digits (nat i))"

definition digit_val :: "char \<Rightarrow> nat option" where
  "digit_val c = (let n = of_char c in if 48 \<le> n \<and> n < 58 then Some (n - 48) else None)"

fun parse_dec :: "nat \<Rightarrow> string \<Rightarrow> nat option" where
  "parse_dec acc [] = Some acc"
| "parse_dec acc (c # cs) =
     (case digit_val c of None \<Rightarrow> None | Some d \<Rightarrow> parse_dec (10 * acc + d) cs)"

text \<open>
  \<open>StrWhiteSpaceChar\<close> restricted to ASCII: tab, line feed, vertical tab, form feed,
  carriage return and space; \<open>Number(s)\<close> ignores it at both ends.
\<close>

definition js_space :: "char \<Rightarrow> bool" where
  "js_space c = (of_char c \<in> {9, 10, 11, 12, 13, 32 :: nat})"

definition js_trim :: "string \<Rightarrow> string" where
  "js_trim s = rev (dropWhile js_space (rev (dropWhile js_space s)))"

text \<open>
  \<open>Number(s)\<close> on the strings whose value is an integer written in decimal: an
  optional sign and at least one digit, with surrounding white space; an all-white-space
  string is \<open>0\<close>. Every other string is \<open>None\<close> here: that is \<open>NaN\<close> in JavaScript
  for most of them, but also covers the hexadecimal, exponent and fractional forms
  (\<open>"0x10"\<close>, \<open>"1e3"\<close>, \<open>"4.5"\<close>) that JavaScript reads as numbers and this model
  does not.
\<close>

definition parse_int :: "string \<Rightarrow> int option" where
  "parse_int s =
     (case js_trim s of
        [] \<Rightarrow> Some 0
      | c # cs \<Rightarrow>
          if c = CHR ''-'' then (if cs = [] then None else map_option (\<lambda>n. - int n) (parse_dec 0 cs))
          else if c = CHR ''+'' then (if cs = [] then None else map_option int (parse_dec 0 cs))
          else map_option int (parse_dec 0 (c # cs)))"

lemma digit_val_digit_char [simp]: "d < 10 \<Longrightarrow> digit_val (digit_char d) = Some d"
  by (simp add: digit_val_def digit_char_def)

lemma parse_dec_append:
  "parse_dec acc (xs @ ys) = (case parse_dec acc xs of None \<Rightarrow> None | Some a \<Rightarrow> parse_dec a ys)"
  by (induction acc xs rule: parse_dec.induct) (auto split: option.split)

lemma parse_dec_dec_digits:
  "parse_dec acc (dec_digits n) = Some (acc * 10 ^ length (dec_digits n) + n)"
proof (induction n arbitrary: acc rule: dec_digits.induct)
  case (1 n)
  show ?case
  proof (cases "n < 10")
    case True
    then show ?thesis by (simp add: dec_digits.simps [of n])
  next
    case False
    then have eq: "dec_digits n = dec_digits (n div 10) @ [digit_char (n mod 10)]"
      by (simp add: dec_digits.simps [of n])
    have "10 * (acc * 10 ^ length (dec_digits (n div 10)) + n div 10) + n mod 10
          = acc * 10 ^ Suc (length (dec_digits (n div 10))) + n"
      by (simp add: algebra_simps)
    with False "1.IH" show ?thesis by (simp add: eq parse_dec_append)
  qed
qed

lemma dec_digits_ne: "dec_digits n \<noteq> []"
  by (simp add: dec_digits.simps [of n])

lemma dec_digits_no_space: "c \<in> set (dec_digits n) \<Longrightarrow> \<not> js_space c \<and> c \<noteq> CHR ''-'' \<and> c \<noteq> CHR ''+''"
proof (induction n rule: dec_digits.induct)
  case (1 n)
  have digit: "\<not> js_space (digit_char d) \<and> digit_char d \<noteq> CHR ''-'' \<and> digit_char d \<noteq> CHR ''+''"
    if "d < 10" for d
  proof -
    have o: "of_char (digit_char d) = (48 + d :: nat)"
      using that by (simp add: digit_char_def)
    have "of_char (digit_char d) \<noteq> (of_char (CHR ''-'') :: nat)"
      and "of_char (digit_char d) \<noteq> (of_char (CHR ''+'') :: nat)"
      using o by simp_all
    then show ?thesis using o that by (auto simp: js_space_def)
  qed
  show ?case
  proof (cases "n < 10")
    case True
    with "1.prems" digit show ?thesis by (simp add: dec_digits.simps [of n])
  next
    case False
    with "1.prems" "1.IH" digit show ?thesis by (auto simp: dec_digits.simps [of n])
  qed
qed

lemma js_trim_no_space:
  assumes "\<forall>c \<in> set s. \<not> js_space c"
  shows "js_trim s = s"
proof -
  have d: "dropWhile js_space xs = xs" if "\<forall>c \<in> set xs. \<not> js_space c" for xs
    using that by (cases xs) auto
  have "dropWhile js_space s = s" and "dropWhile js_space (rev s) = rev s"
    using assms by (simp_all add: d)
  then show ?thesis by (simp add: js_trim_def)
qed

text \<open>Round trip: \<open>Number(String(i)) = i\<close> for every integer.\<close>

theorem parse_int_show_int: "parse_int (show_int i) = Some i"
proof -
  let ?n = "nat \<bar>i\<bar>"
  have ds: "\<forall>c \<in> set (dec_digits ?n). \<not> js_space c \<and> c \<noteq> CHR ''-'' \<and> c \<noteq> CHR ''+''"
    using dec_digits_no_space by blast
  obtain c cs where cs: "dec_digits ?n = c # cs"
    using dec_digits_ne by (cases "dec_digits ?n") auto
  have p: "parse_dec 0 (dec_digits ?n) = Some ?n"
    by (simp add: parse_dec_dec_digits)
  show ?thesis
  proof (cases "i < 0")
    case True
    then have "show_int i = CHR ''-'' # dec_digits ?n" by (simp add: show_int_def)
    moreover have "js_trim (CHR ''-'' # dec_digits ?n) = CHR ''-'' # dec_digits ?n"
      using ds by (intro js_trim_no_space) (auto simp: js_space_def)
    ultimately show ?thesis using True p cs by (simp add: parse_int_def)
  next
    case False
    then have "show_int i = dec_digits ?n" by (simp add: show_int_def)
    moreover have "js_trim (dec_digits ?n) = dec_digits ?n"
      using ds by (intro js_trim_no_space) auto
    ultimately show ?thesis using False p cs ds by (simp add: parse_int_def)
  qed
qed

subsection \<open>ObjectId and its hexadecimal form\<close>

text \<open>
  \<open>toHexString\<close> writes the twelve bytes as 24 lower-case hexadecimal digits, most
  significant first; \<open>new ObjectId(s)\<close> accepts a string of exactly 24 hexadecimal
  digits of either case and throws on any other string.
\<close>

definition hex_char :: "nat \<Rightarrow> char" where
  "hex_char d = (if d < 10 then char_of (48 + d) else char_of (87 + d))"

fun hex_digits :: "nat \<Rightarrow> nat \<Rightarrow> string" where
  "hex_digits 0 n = []"
| "hex_digits (Suc k) n = hex_digits k (n div 16) @ [hex_char (n mod 16)]"

definition oid_to_hex :: "oid \<Rightarrow> string" where
  "oid_to_hex w = hex_digits 24 (unat w)"

definition hex_val :: "char \<Rightarrow> nat option" where
  "hex_val c =
     (let n = of_char c in
      if 48 \<le> n \<and> n < 58 then Some (n - 48)
      else if 97 \<le> n \<and> n < 103 then Some (n - 87)
      else if 65 \<le> n \<and> n < 71 then Some (n - 55)
      else None)"

fun parse_hex :: "nat \<Rightarrow> string \<Rightarrow> nat option" where
  "parse_hex acc [] = Some acc"
| "parse_hex acc (c # cs) =
     (case hex_val c of None \<Rightarrow> None | Some d \<Rightarrow> parse_hex (16 * acc + d) cs)"

definition oid_of_hex :: "string \<Rightarrow> oid option" where
  "oid_of_hex s = (if length s = 24 then map_option of_nat (parse_hex 0 s) else None)"

text \<open>The canonical (lower-case) spelling of a hexadecimal digit.\<close>

definition hex_lower :: "char \<Rightarrow> char" where
  "hex_lower c = (case hex_val c of Some d \<Rightarrow> hex_char d | None \<Rightarrow> c)"

lemma hex_val_hex_char [simp]: "d < 16 \<Longrightarrow> hex_val (hex_char d) = Some d"
  by (simp add: hex_val_def hex_char_def Let_def)

lemma hex_val_bound: "hex_val c = Some d \<Longrightarrow> d < 16"
  by (auto simp: hex_val_def Let_def split: if_splits)

lemma length_hex_digits [simp]: "length (hex_digits k n) = k"
  by (induction k arbitrary: n) auto

lemma parse_hex_append:
  "parse_hex acc (xs @ ys) = (case parse_hex acc xs of None \<Rightarrow> None | Some a \<Rightarrow> parse_hex a ys)"
  by (induction acc xs rule: parse_hex.induct) (auto split: option.split)

lemma parse_hex_hex_digits:
  "parse_hex acc (hex_digits k n) = Some (acc * 16 ^ k + n mod 16 ^ k)"
proof (induction k arbitrary: n)
  case 0
  then show ?case by simp
next
  case (Suc k)
  have "16 * (acc * 16 ^ k + n div 16 mod 16 ^ k) + n mod 16 = acc * 16 ^ Suc k + n mod 16 ^ Suc k"
    by (simp add: algebra_simps mod_mult2_eq)
  with Suc show ?case by (simp add: parse_hex_append)
qed

text \<open>Round trip: \<open>new ObjectId(id.toHexString())\<close> is \<open>id\<close>.\<close>

theorem oid_of_hex_to_hex: "oid_of_hex (oid_to_hex w) = Some w"
proof -
  have "unat w < 16 ^ 24"
    using unsigned_less [of w, where ?'a = nat] by simp
  then have "parse_hex 0 (hex_digits 24 (unat w)) = Some (unat w)"
    by (simp add: parse_hex_hex_digits)
  then show ?thesis by (simp add: oid_of_hex_def oid_to_hex_def)
qed

lemma parse_hex_bound:
  "parse_hex acc s = Some n \<Longrightarrow> n < (Suc acc) * 16 ^ length s"
proof (induction acc s arbitrary: n rule: parse_hex.induct)
  case (1 acc)
  then show ?case by simp
next
  case (2 acc c cs)
  then obtain d where d: "hex_val c = Some d" and r: "parse_hex (16 * acc + d) cs = Some n"
    by (auto split: option.splits)
  have "d < 16" using d by (rule hex_val_bound)
  have "n < Suc (16 * acc + d) * 16 ^ length cs" using "2.IH" [OF d r] .
  also have "\<dots> \<le> Suc acc * 16 ^ length (c # cs)"
    using \<open>d < 16\<close> by (simp add: algebra_simps)
  finally show ?case .
qed

lemma hex_digits_parse_hex:
  "parse_hex acc s = Some n \<Longrightarrow> hex_digits (length s) n = map hex_lower s"
proof (induction s arbitrary: n rule: rev_induct)
  case Nil
  then show ?case by simp
next
  case (snoc c s)
  from snoc.prems obtain m d where m: "parse_hex acc s = Some m" and d: "hex_val c = Some d"
    and n: "n = 16 * m + d"
    by (auto simp: parse_hex_append split: option.splits)
  have "d < 16" using d by (rule hex_val_bound)
  then have "n div 16 = m" and "n mod 16 = d" using n by simp_all
  with snoc.IH [OF m] d show ?case by (simp add: hex_lower_def)
qed

text \<open>
  The other direction: an ObjectId parsed from a string prints back as that string
  with its digits in lower case.
\<close>

theorem oid_to_hex_of_hex:
  assumes "oid_of_hex s = Some w"
  shows "oid_to_hex w = map hex_lower s"
proof -
  from assms obtain n where len: "length s = 24" and p: "parse_hex 0 s = Some n"
    and w: "w = of_nat n"
    by (auto simp: oid_of_hex_def split: if_splits)
  have "n < 2 ^ 96" using parse_hex_bound [OF p] len by simp
  then have "unat w = n" using w by (simp add: unat_of_nat)
  then show ?thesis using hex_digits_parse_hex [OF p] len by (simp add: oid_to_hex_def)
qed

end
