(* ===== verification/MongooseSchema.thy ===== *)
theory MongooseSchema
  imports JsConv
begin

text \<open>
  The document semantics that the repository's schema files rely on. Each file under
  \<open>src/Data Modelling for backend with Mongoose/\<close> calls \<open>new mongoose.Schema({...})\<close>
  and \<open>mongoose.model(name, schema)\<close>; what such a declaration means is decided by
  Mongoose, which is a library the sources only call. This theory models the part of
  Mongoose (version 8) that gives those declarations their meaning when a document is
  created and saved (\<open>Model.create(obj)\<close>, or \<open>new Model(obj).save()\<close>):
  \<^item> a path's declared type (\<open>String\<close>, \<open>Number\<close>, \<open>Boolean\<close>, \<open>ObjectId\<close>,
    \<open>Date\<close>, an array of a type, a nested sub-schema) is a value of \<open>stype\<close>, and a
    path with its options (\<open>required\<close>, \<open>default\<close>, \<open>enum\<close>) is an \<open>sfield\<close>;
  \<^item> casting (\<open>cast_scalar\<close>, \<open>cast_val\<close>) converts the supplied value to the
    path's type or records a \<open>CastError\<close> at the path;
  \<^item> a missing path takes its default (arrays default to \<open>[]\<close>), then the
    \<open>required\<close> and \<open>enum\<close> validators run (\<open>validate\<close>); keys not in the schema
    are dropped (strict mode);
  \<^item> the errors of all paths are collected into one \<open>ValidationError\<close>, and the
    document is stored only when there are none (\<open>create\<close>); schemas declared with
    \<open>timestamps: true\<close> get \<open>createdAt\<close> and \<open>updatedAt\<close>.
  Not modelled: the automatically generated \<open>_id\<close> of documents and sub-documents, a
  caller-supplied \<open>createdAt\<close> (which Mongoose keeps), string-to-\<open>Date\<close> casting
  (\<open>Date.parse\<close>; only numbers and \<open>Date\<close> values cast to a date here), and the
  number forms outside \<open>parse_int\<close>. A JavaScript number is an IEEE double; \<open>JNum\<close>
  holds the integer-valued ones, and a string casts to \<open>Number\<close> here only when it is a
  decimal integer of magnitude at most \<open>2^53\<close>, where the double is exact. Strings that
  Mongoose reads as a fraction, an exponent, hexadecimal or a rounded large integer are
  outside the model: it reports a cast error for them. Each path reports one error; where Mongoose would
  report a cast error and a validator error at the same path, this model reports the cast
  error.

  The theorem of the theory is type soundness: a document that \<open>create\<close> stores
  conforms to its schema (\<open>has_type\<close>): every stored value has its path's type, every
  required path is present and non-empty, every \<open>enum\<close> path holds one of its values
  (or \<open>null\<close>, which Mongoose's enum validator lets through), and no other key is stored.
\<close>

datatype stype =
    SString
  | SNumber
  | SBoolean
  | SObjectId string
  | SDate
  | SArray stype
  | SSub "sfield list"
and sfield = Field (fname: string) (ftype: stype) (frequired: bool)
    (fdefault: "jsval option") (fenum: "string list option")

datatype pcomp = PKey string | PIdx nat
type_synonym path = "pcomp list"
datatype verr = CastError | RequiredError | EnumError
type_synonym perr = "path \<times> verr"

fun cast_scalar :: "stype \<Rightarrow> jsval \<Rightarrow> jsval option" where
  "cast_scalar SString (JStr s) = Some (JStr s)"
| "cast_scalar SString (JNum n) = Some (JStr (show_int n))"
| "cast_scalar SString (JBool b) = Some (JStr (if b then ''true'' else ''false''))"
| "cast_scalar SString (JOid w) = Some (JStr (oid_to_hex w))"
| "cast_scalar SNumber (JNum n) = Some (JNum n)"
| "cast_scalar SNumber (JBool b) = Some (JNum (if b then 1 else 0))"
| "cast_scalar SNumber (JStr s) =
     (if s = [] then Some JNull
      else case parse_int s of
             Some n \<Rightarrow> if \<bar>n\<bar> \<le> 2 ^ 53 then Some (JNum n) else None
           | None \<Rightarrow> None)"
| "cast_scalar SBoolean v =
     (if v \<in> set [JBool True, JStr ''true'', JNum 1, JStr ''1'', JStr ''yes''] then Some (JBool True)
      else if v \<in> set [JBool False, JStr ''false'', JNum 0, JStr ''0'', JStr ''no''] then Some (JBool False)
      else None)"
| "cast_scalar (SObjectId r) (JOid w) = Some (JOid w)"
| "cast_scalar (SObjectId r) (JStr s) = map_option JOid (oid_of_hex s)"
| "cast_scalar SDate (JDate d) = Some (JDate d)"
| "cast_scalar SDate (JNum n) = Some (JDate n)"
| "cast_scalar _ _ = None"

fun required_ok :: "stype \<Rightarrow> jsval \<Rightarrow> bool" where
  "required_ok SString v = (case v of JStr s \<Rightarrow> s \<noteq> [] | _ \<Rightarrow> False)"
| "required_ok SNumber v = (case v of JNum _ \<Rightarrow> True | _ \<Rightarrow> False)"
| "required_ok SBoolean v = (case v of JBool _ \<Rightarrow> True | _ \<Rightarrow> False)"
| "required_ok (SObjectId _) v = (case v of JOid _ \<Rightarrow> True | _ \<Rightarrow> False)"
| "required_ok SDate v = (case v of JDate _ \<Rightarrow> True | _ \<Rightarrow> False)"
| "required_ok (SArray _) v = (case v of JArr _ \<Rightarrow> True | _ \<Rightarrow> False)"
| "required_ok (SSub _) v = (case v of JObj _ \<Rightarrow> True | _ \<Rightarrow> False)"

fun enum_ok :: "string list option \<Rightarrow> jsval \<Rightarrow> bool" where
  "enum_ok None v = True"
| "enum_ok (Some vs) v = (case v of JNull \<Rightarrow> True | JStr s \<Rightarrow> s \<in> set vs | _ \<Rightarrow> False)"

definition validate :: "path \<Rightarrow> sfield \<Rightarrow> jsval \<Rightarrow> perr list" where
  "validate q f w =
     (if frequired f \<and> \<not> required_ok (ftype f) w then [(q, RequiredError)]
      else if enum_ok (fenum f) w then [] else [(q, EnumError)])"

definition default_val :: "sfield \<Rightarrow> jsval option" where
  "default_val f = (case fdefault f of Some d \<Rightarrow> Some d
     | None \<Rightarrow> (case ftype f of SArray _ \<Rightarrow> Some (JArr []) | _ \<Rightarrow> None))"

fun collect :: "('e list + 'a) list \<Rightarrow> 'e list + 'a list" where
  "collect [] = Inr []"
| "collect (r # rs) =
     (case (r, collect rs) of
        (Inr a, Inr as) \<Rightarrow> Inr (a # as)
      | (Inl e, Inl es) \<Rightarrow> Inl (e @ es)
      | (Inl e, Inr _) \<Rightarrow> Inl e
      | (Inr _, Inl es) \<Rightarrow> Inl es)"

function (sequential) cast_val :: "path \<Rightarrow> stype \<Rightarrow> jsval \<Rightarrow> perr list + jsval"
and save_field :: "path \<Rightarrow> obj \<Rightarrow> sfield \<Rightarrow> perr list \<times> obj" where
  "cast_val p (SArray t) v =
     (let vs = (case v of JArr vs \<Rightarrow> vs | _ \<Rightarrow> [v]) in
      map_sum id JArr (collect (map (\<lambda>(i, x). if x = JNull then Inr JNull else cast_val (p @ [PIdx i]) t x)
                               (enumerate 0 vs))))"
| "cast_val p (SSub fs) v =
     (case v of
        JObj ob \<Rightarrow>
          (let rs = map (save_field p ob) fs; es = concat (map fst rs) in
           if es = [] then Inr (JObj (concat (map snd rs))) else Inl es)
      | _ \<Rightarrow> Inl [(p, CastError)])"
| "cast_val p t v = (case cast_scalar t v of None \<Rightarrow> Inl [(p, CastError)] | Some w \<Rightarrow> Inr w)"
| "save_field p ob f =
     (let q = p @ [PKey (fname f)]; v = get ob (fname f);
          v' = (if v = JUndefined then default_val f else Some v) in
      case v' of
        None \<Rightarrow> (if frequired f then [(q, RequiredError)] else [], [])
      | Some x \<Rightarrow>
          if x = JNull then (validate q f JNull, [(fname f, JNull)])
          else (case cast_val q (ftype f) x of
                  Inl es \<Rightarrow> (es, [])
                | Inr w \<Rightarrow> (validate q f w, [(fname f, w)])))"
  by pat_completeness auto
termination
  apply (relation "measure (case_sum (\<lambda>(p, t, v). size t) (\<lambda>(p, ob, f). size f))")
  apply (auto intro: size_mem_less)
  subgoal for ob f by (cases f) simp
  done


fun scalar_ok :: "stype \<Rightarrow> jsval \<Rightarrow> bool" where
  "scalar_ok SString v = (case v of JStr _ \<Rightarrow> True | JNull \<Rightarrow> True | _ \<Rightarrow> False)"
| "scalar_ok SNumber v = (case v of JNum _ \<Rightarrow> True | JNull \<Rightarrow> True | _ \<Rightarrow> False)"
| "scalar_ok SBoolean v = (case v of JBool _ \<Rightarrow> True | JNull \<Rightarrow> True | _ \<Rightarrow> False)"
| "scalar_ok (SObjectId _) v = (case v of JOid _ \<Rightarrow> True | JNull \<Rightarrow> True | _ \<Rightarrow> False)"
| "scalar_ok SDate v = (case v of JDate _ \<Rightarrow> True | JNull \<Rightarrow> True | _ \<Rightarrow> False)"
| "scalar_ok _ v = False"

function (sequential) has_type :: "stype \<Rightarrow> jsval \<Rightarrow> bool"
and field_ok :: "obj \<Rightarrow> sfield \<Rightarrow> bool" where
  "has_type (SArray t) v =
     (case v of JNull \<Rightarrow> True | JArr vs \<Rightarrow> (\<forall>x \<in> set vs. has_type t x) | _ \<Rightarrow> False)"
| "has_type (SSub fs) v =
     (case v of
        JNull \<Rightarrow> True
      | JObj ob \<Rightarrow> distinct (map fst ob) \<and> fst ` set ob \<subseteq> fname ` set fs \<and> (\<forall>f \<in> set fs. field_ok ob f)
      | _ \<Rightarrow> False)"
| "has_type t v = scalar_ok t v"
| "field_ok ob f =
     (case map_of ob (fname f) of
        None \<Rightarrow> \<not> frequired f \<and> default_val f = None
      | Some x \<Rightarrow> has_type (ftype f) x \<and> (frequired f \<longrightarrow> required_ok (ftype f) x) \<and> enum_ok (fenum f) x)"
  by pat_completeness auto
termination
  apply (relation "measure (case_sum (\<lambda>(t, v). size t) (\<lambda>(ob, f). size f))")
  apply (auto intro: size_mem_less)
  subgoal for ob f by (cases f) simp
  done

function wf_type :: "stype \<Rightarrow> bool" where
  "wf_type (SArray t) = wf_type t"
| "wf_type (SSub fs) = (distinct (map fname fs) \<and> (\<forall>f \<in> set fs. wf_type (ftype f)))"
| "wf_type SString = True"
| "wf_type SNumber = True"
| "wf_type SBoolean = True"
| "wf_type (SObjectId r) = True"
| "wf_type SDate = True"
  by pat_completeness auto
termination
  apply (relation "measure size")
  apply (auto intro: size_mem_less)
  subgoal for fs f using size_mem_less [of f fs size] by (cases f) simp
  done


text \<open>A schema: its paths, and whether it was declared with \<open>{timestamps: true}\<close>.\<close>

record schema =
  sfields :: "sfield list"
  stimestamps :: bool

text \<open>Casting and validating all paths of a (sub-)document, errors and bindings in path order.\<close>

definition save_fields :: "path \<Rightarrow> sfield list \<Rightarrow> obj \<Rightarrow> perr list \<times> obj" where
  "save_fields p fs ob = (let rs = map (save_field p ob) fs in (concat (map fst rs), concat (map snd rs)))"

definition timestamps_of :: "schema \<Rightarrow> int \<Rightarrow> obj" where
  "timestamps_of s now =
     (if stimestamps s then [(''createdAt'', JDate now), (''updatedAt'', JDate now)] else [])"

text \<open>
  \<open>Model.create(obj)\<close> at time \<open>now\<close>: the stored document, or the errors of the
  \<open>ValidationError\<close> it rejects with.
\<close>

definition create :: "schema \<Rightarrow> int \<Rightarrow> obj \<Rightarrow> perr list + obj" where
  "create s now ob =
     (case save_fields [] (sfields s) ob of
        (es, d) \<Rightarrow> if es = [] then Inr (d @ timestamps_of s now) else Inl es)"

text \<open>What a stored binding of one path must satisfy (used by the soundness proof).\<close>

definition binding_ok :: "sfield \<Rightarrow> obj \<Rightarrow> bool" where
  "binding_ok f b =
     (length b \<le> 1 \<and> (b = [] \<longrightarrow> \<not> frequired f \<and> default_val f = None) \<and>
      (\<forall>(k, x) \<in> set b. k = fname f \<and> has_type (ftype f) x
         \<and> (frequired f \<longrightarrow> required_ok (ftype f) x) \<and> enum_ok (fenum f) x))"


declare save_field.simps [simp del]

declare create_def [model_defs] save_fields_def [model_defs] save_field.simps [model_defs]
  validate_def [model_defs] default_val_def [model_defs] timestamps_of_def [model_defs]

subsection \<open>Type soundness of saving\<close>



lemma collect_map_Inr: "collect (map Inr ws) = Inr ws"
  by (induction ws) auto
lemma collect_Inr_iff: "(collect rs = Inr ws) = (rs = map Inr ws)"
proof
  show "collect rs = Inr ws \<Longrightarrow> rs = map Inr ws"
    by (induction rs arbitrary: ws) (auto split: sum.splits prod.splits)
qed (simp add: collect_map_Inr)

lemma cast_scalar_ok': "case cast_scalar t v of None \<Rightarrow> True | Some w \<Rightarrow> scalar_ok t w"
  by (cases t; cases v) (simp_all split: option.split)
lemma cast_scalar_ok: "cast_scalar t v = Some w \<Longrightarrow> scalar_ok t w"
  using cast_scalar_ok' [of t v] by simp






lemma has_type_JNull [simp]: "has_type t JNull"
  by (cases t) simp_all

lemma collect_Inl_ne: "collect rs = Inl es \<Longrightarrow> \<forall>e. Inl e \<in> set rs \<longrightarrow> e \<noteq> [] \<Longrightarrow> es \<noteq> []"
  by (induction rs arbitrary: es) (auto split: sum.splits)

lemma cast_val_not_Inl_Nil: "cast_val p t v \<noteq> Inl []"
  and "save_field p ob f = save_field p ob f"
proof (induction p t v and p ob f rule: cast_val_save_field.induct)
  case (1 p t v)
  define rs where "rs = map (\<lambda>(i, x). if x = JNull then Inr JNull else cast_val (p @ [PIdx i]) t x)
                             (enumerate 0 (case v of JArr vs \<Rightarrow> vs | _ \<Rightarrow> [v]))"
  have "\<forall>e. Inl e \<in> set rs \<longrightarrow> e \<noteq> []"
  proof (intro allI impI)
    fix e assume "Inl e \<in> set rs"
    then obtain i x where ix: "(i, x) \<in> set (enumerate 0 (case v of JArr vs \<Rightarrow> vs | _ \<Rightarrow> [v]))"
      and r: "(if x = JNull then Inr JNull else cast_val (p @ [PIdx i]) t x) = Inl e"
      by (auto simp: rs_def)
    then have nn: "x \<noteq> JNull" and ce: "cast_val (p @ [PIdx i]) t x = Inl e" by (auto split: if_splits)
    have "cast_val (p @ [PIdx i]) t x \<noteq> Inl []" using "1.IH" [OF refl ix refl nn] .
    with ce show "e \<noteq> []" by simp
  qed
  then have "collect rs \<noteq> Inl []" using collect_Inl_ne by blast
  then show ?case by (simp add: rs_def map_sum_id_Inl)
next
  case (2 p fs v)
  then show ?case by (cases v) (simp_all add: Let_def)
qed (auto split: option.splits)


lemma validate_Nil: "(validate q f w = []) = ((frequired f \<longrightarrow> required_ok (ftype f) w) \<and> enum_ok (fenum f) w)"
  by (simp add: validate_def)

lemma binding_ok_keys: "binding_ok f b \<Longrightarrow> length b \<le> 1 \<and> fst ` set b \<subseteq> {fname f}"
  by (auto simp: binding_ok_def)

lemma binding_ok_field_ok:
  assumes "binding_ok f b" and "map_of d (fname f) = map_of b (fname f)"
  shows "field_ok d f"
proof (cases b)
  case Nil
  with assms show ?thesis by (simp add: binding_ok_def)
next
  case (Cons kx rest)
  with assms(1) have "rest = []" by (simp add: binding_ok_def)
  with Cons assms show ?thesis by (cases kx) (simp add: binding_ok_def)
qed

lemma cast_val_sound: "cast_val p t v = Inr w \<Longrightarrow> wf_type t \<Longrightarrow> has_type t w"
  and save_field_sound: "save_field p ob f = ([], b) \<Longrightarrow> wf_type (ftype f) \<Longrightarrow> binding_ok f b"
proof (induction p t v and p ob f arbitrary: w and b rule: cast_val_save_field.induct)
  case (1 p t v)
  define rs where "rs = map (\<lambda>(i, x). if x = JNull then Inr JNull else cast_val (p @ [PIdx i]) t x)
                             (enumerate 0 (case v of JArr vs \<Rightarrow> vs | _ \<Rightarrow> [v]))"
  from "1.prems"(1) obtain ws where c: "collect rs = Inr ws" and w: "w = JArr ws"
    by (auto simp: rs_def map_sum_id_Inr)
  have "\<forall>y \<in> set ws. has_type t y"
  proof
    fix y assume "y \<in> set ws"
    with c obtain i x where ix: "(i, x) \<in> set (enumerate 0 (case v of JArr vs \<Rightarrow> vs | _ \<Rightarrow> [v]))"
      and r: "(if x = JNull then Inr JNull else cast_val (p @ [PIdx i]) t x) = Inr y"
      using map_eq_map_Inr by (fastforce simp: rs_def collect_Inr_iff)
    show "has_type t y"
    proof (cases "x = JNull")
      case True
      with r show ?thesis by simp
    next
      case False
      with r have "cast_val (p @ [PIdx i]) t x = Inr y" by simp
      with "1.IH" [OF refl ix refl False] "1.prems"(2) show ?thesis by simp
    qed
  qed
  with w show ?case by simp
next
  case (2 p fs v)
  obtain ob where v: "v = JObj ob"
    using "2.prems"(1) by (cases v) (simp_all add: Let_def)
  let ?B = "\<lambda>f. snd (save_field p ob f)"
  from "2.prems"(1) v have es: "\<forall>f \<in> set fs. fst (save_field p ob f) = []"
    by (simp add: Let_def split: if_splits)
  from "2.prems"(1) v have w: "w = JObj (concat (map ?B fs))"
    by (auto simp: Let_def comp_def split: if_splits)
  from "2.prems"(2) have dist: "distinct (map fname fs)" and wf: "\<forall>f \<in> set fs. wf_type (ftype f)"
    by simp_all
  have ok: "binding_ok f (?B f)" if "f \<in> set fs" for f
  proof -
    from es that have "save_field p ob f = ([], ?B f)" by (metis prod.collapse)
    with "2.IH" [OF v that] wf that show ?thesis by simp
  qed
  have keyed: "\<forall>g \<in> set fs. length (?B g) \<le> 1 \<and> fst ` set (?B g) \<subseteq> {fname g}"
    using ok binding_ok_keys by blast
  have "distinct (map fst (concat (map ?B fs)))"
    using dist keyed by (rule distinct_concat_keyed)
  moreover have "fst ` set (concat (map ?B fs)) \<subseteq> fname ` set fs"
    using keyed by (intro keys_concat_keyed) simp
  moreover have "\<forall>f \<in> set fs. field_ok (concat (map ?B fs)) f"
  proof
    fix f assume f: "f \<in> set fs"
    have "map_of (concat (map ?B fs)) (fname f) = map_of (?B f) (fname f)"
      using dist keyed f by (intro map_of_concat_keyed) simp_all
    with ok [OF f] show "field_ok (concat (map ?B fs)) f" by (rule binding_ok_field_ok)
  qed
  ultimately show ?case using w by simp
next
  case (4 p ob f)
  define q where "q = p @ [PKey (fname f)]"
  define v' where "v' = (if get ob (fname f) = JUndefined then default_val f else Some (get ob (fname f)))"
  have sf: "save_field p ob f =
     (case v' of
        None \<Rightarrow> (if frequired f then [(q, RequiredError)] else [], [])
      | Some x \<Rightarrow>
          if x = JNull then (validate q f JNull, [(fname f, JNull)])
          else (case cast_val q (ftype f) x of
                  Inl es \<Rightarrow> (es, [])
                | Inr w \<Rightarrow> (validate q f w, [(fname f, w)])))"
    unfolding q_def v'_def by (simp only: save_field.simps Let_def)
  show ?case
  proof (cases v')
    case None
    then have "default_val f = None" unfolding v'_def by (simp split: if_splits)
    with None "4.prems"(1) sf show ?thesis by (simp add: binding_ok_def split: if_splits)
  next
    case (Some x)
    show ?thesis
    proof (cases "x = JNull")
      case True
      with Some "4.prems"(1) sf have b: "b = [(fname f, JNull)]" and vw: "validate q f JNull = []"
        by simp_all
      from vw show ?thesis by (simp add: b binding_ok_def validate_Nil)
    next
      case False
      show ?thesis
      proof (cases "cast_val q (ftype f) x")
        case (Inl es)
        with Some False "4.prems"(1) sf have "es = []" by simp
        with Inl cast_val_not_Inl_Nil show ?thesis by simp
      next
        case (Inr w)
        with Some False "4.prems"(1) sf have b: "b = [(fname f, w)]" and vw: "validate q f w = []"
          by simp_all
        have "has_type (ftype f) w"
          using "4.IH" [OF q_def refl v'_def Some False Inr] "4.prems"(2) .
        with b vw show ?thesis by (simp add: binding_ok_def validate_Nil)
      qed
    qed
  qed
qed (auto simp del: cast_scalar.simps split: option.splits dest: cast_scalar_ok)


lemma cast_val_SSub:
  "cast_val p (SSub fs) (JObj ob) =
     (case save_fields p fs ob of (es, d) \<Rightarrow> if es = [] then Inr (JObj d) else Inl es)"
  by (simp add: save_fields_def Let_def)

text \<open>
  A document stored by \<open>create\<close> is the schema's paths, cast and validated, followed by
  the timestamps; the paths' part conforms to the schema.
\<close>

theorem create_conforms:
  assumes "wf_type (SSub (sfields s))" and "create s now ob = Inr d"
  shows "\<exists>d0. d = d0 @ timestamps_of s now \<and> has_type (SSub (sfields s)) (JObj d0)"
proof -
  obtain es d0 where sf: "save_fields [] (sfields s) ob = (es, d0)" by (cases "save_fields [] (sfields s) ob")
  with assms(2) have es: "es = []" and d: "d = d0 @ timestamps_of s now"
    by (simp_all add: create_def split: if_splits)
  from sf es have "cast_val [] (SSub (sfields s)) (JObj ob) = Inr (JObj d0)"
    unfolding cast_val_SSub by simp
  then have "has_type (SSub (sfields s)) (JObj d0)"
    using assms(1) by (rule cast_val_sound)
  with d show ?thesis by blast
qed


subsection \<open>Reading a stored document\<close>

lemma has_type_JUndefined [simp]: "\<not> has_type t JUndefined"
  by (cases t) simp_all

lemma has_type_get:
  assumes "has_type (SSub fs) (JObj d)" and "f \<in> set fs"
  shows "(get d (fname f) = JUndefined \<and> \<not> frequired f \<and> default_val f = None) \<or>
         (has_type (ftype f) (get d (fname f)) \<and> (frequired f \<longrightarrow> required_ok (ftype f) (get d (fname f)))
          \<and> enum_ok (fenum f) (get d (fname f)))"
proof -
  from assms have dist: "distinct (map fst d)" and ok: "field_ok d f" by simp_all
  show ?thesis
  proof (cases "map_of d (fname f)")
    case None
    with ok dist show ?thesis by (simp add: get_map_of)
  next
    case (Some x)
    with ok dist show ?thesis by (simp add: get_map_of)
  qed
qed

lemma save_field_shape: "length (snd (save_field p ob f)) \<le> 1 \<and> fst ` set (snd (save_field p ob f)) \<subseteq> {fname f}"
  by (simp add: save_field.simps Let_def split: option.split sum.split)

lemma save_fields_get:
  assumes "distinct (map fname fs)" and "f \<in> set fs" and "save_fields p fs ob = (es, d)"
  shows "get d (fname f) = (case snd (save_field p ob f) of [] \<Rightarrow> JUndefined | (k, x) # _ \<Rightarrow> x)"
proof -
  let ?B = "\<lambda>f. snd (save_field p ob f)"
  have d: "d = concat (map ?B fs)" using assms(3) by (simp add: save_fields_def comp_def)
  have keyed: "\<forall>g \<in> set fs. length (?B g) \<le> 1 \<and> fst ` set (?B g) \<subseteq> {fname g}"
    using save_field_shape by blast
  then have dist: "distinct (map fst d)"
    unfolding d using assms(1) by (intro distinct_concat_keyed)
  have "map_of d (fname f) = map_of (?B f) (fname f)"
    unfolding d using assms(1,2) keyed by (intro map_of_concat_keyed) simp_all
  moreover have "length (?B f) \<le> 1" and "fst ` set (?B f) \<subseteq> {fname f}" using keyed assms(2) by simp_all
  ultimately show ?thesis using dist
    by (cases "?B f") (auto simp: get_map_of)
qed

lemma save_fields_errors:
  "f \<in> set fs \<Longrightarrow> set (fst (save_field p ob f)) \<subseteq> set (fst (save_fields p fs ob))"
  by (auto simp: save_fields_def Let_def)

lemma create_get:
  assumes "create s now ob = Inr d" and "wf_type (SSub (sfields s))"
    and "k \<notin> {''createdAt'', ''updatedAt''}"
  shows "\<exists>d0. has_type (SSub (sfields s)) (JObj d0) \<and> get d k = get d0 k"
proof -
  obtain d0 where d: "d = d0 @ timestamps_of s now" and ht: "has_type (SSub (sfields s)) (JObj d0)"
    using create_conforms [OF assms(2,1)] by blast
  have "k \<notin> fst ` set (timestamps_of s now)"
    using assms(3) by (cases "stimestamps s") (simp_all add: timestamps_of_def)
  with d ht show ?thesis by (auto simp: get_append)
qed

lemma save_field_missing_required_string:
  assumes "get ob k \<in> {JUndefined, JNull, JStr []}"
  shows "(p @ [PKey k], RequiredError) \<in> set (fst (save_field p ob (Field k SString True None en)))"
  using assms by (auto simp: save_field.simps validate_def default_val_def)

lemma create_error:
  assumes "f \<in> set (sfields s)" and "e \<in> set (fst (save_field [] ob f))"
  shows "\<exists>es. create s now ob = Inl es \<and> e \<in> set es"
proof -
  have "e \<in> set (fst (save_fields [] (sfields s) ob))"
    using save_fields_errors [OF assms(1)] assms(2) by blast
  then show ?thesis by (cases "save_fields [] (sfields s) ob") (auto simp: create_def)
qed

end
