(* ===== verification/Models.thy ===== *)
theory Models
  imports MongooseSchema
begin

text \<open>
  The repository's data models, one definition per \<open>new mongoose.Schema(...)\<close> and one
  per \<open>mongoose.model(...)\<close>, with the paths, types and options written in the source.
  \<^item> \<open>ecommerce/order.model.js\<close>: \<open>orderItemSchema\<close> (a sub-schema, no timestamps)
    and \<open>orderSchema\<close>, whose \<open>orderItems\<close> is an array of order items;
  \<^item> \<open>models/todo.model.js\<close> and \<open>models/sub_todo.model.js\<close>: \<open>todoSchema\<close> and
    \<open>subTodoSchema\<close>, a todo holding the ObjectIds of its sub-todos;
  \<^item> \<open>hospital management system/patient.model.js\<close> and
    \<open>medical_record.model.js\<close>: \<open>PatientSchema\<close> and \<open>medicalRecordSchema\<close>.
  A field declared by its type alone (\<open>name: String\<close>) is a path with no options.
\<close>

record model =
  mname :: string
  mschema :: schema

definition orderItemSchema :: schema where
  "orderItemSchema =
     \<lparr>sfields =
        [Field ''productId'' (SObjectId ''Product'') False None None,
         Field ''quantity'' SNumber True None None,
         Field ''address'' SString True None None,
         Field ''status'' SString False (Some (JStr ''PENDING''))
           (Some [''PENDING'', ''CANCELLED'', ''DELIVERED''])],
      stimestamps = False\<rparr>"

definition orderSchema :: schema where
  "orderSchema =
     \<lparr>sfields =
        [Field ''orderPrice'' SNumber True None None,
         Field ''customer'' (SObjectId ''User'') True None None,
         Field ''orderItems'' (SArray (SSub (sfields orderItemSchema))) False None None],
      stimestamps = True\<rparr>"

definition Order :: model where
  "Order = \<lparr>mname = ''Order'', mschema = orderSchema\<rparr>"

definition todoSchema :: schema where
  "todoSchema =
     \<lparr>sfields =
        [Field ''content'' SString True None None,
         Field ''completed'' SBoolean False (Some (JBool False)) None,
         Field ''createdBy'' (SObjectId ''User'') False None None,
         Field ''subTodos'' (SArray (SObjectId ''SubTodo'')) False None None],
      stimestamps = True\<rparr>"

definition Todo :: model where
  "Todo = \<lparr>mname = ''Todo'', mschema = todoSchema\<rparr>"

definition subTodoSchema :: schema where
  "subTodoSchema =
     \<lparr>sfields =
        [Field ''content'' SString True None None,
         Field ''completed'' SBoolean False (Some (JBool False)) None,
         Field ''createdBy'' (SObjectId ''User'') False None None],
      stimestamps = True\<rparr>"

definition SubTodo :: model where
  "SubTodo = \<lparr>mname = ''SubTodo'', mschema = subTodoSchema\<rparr>"

definition PatientSchema :: schema where
  "PatientSchema =
     \<lparr>sfields =
        [Field ''name'' SString True None None,
         Field ''diagonsedWith'' SString True None None,
         Field ''address'' SString True None None,
         Field ''age'' SNumber True None None,
         Field ''bloodGroup'' SString True None None,
         Field ''gender'' SString True None (Some [''MALE'', ''FEMALE'', ''OTHERS'']),
         Field ''admittedIn'' (SObjectId ''Hospital'') True None None],
      stimestamps = True\<rparr>"

definition Patient :: model where
  "Patient = \<lparr>mname = ''Patient'', mschema = PatientSchema\<rparr>"

definition medicalRecordSchema :: schema where
  "medicalRecordSchema =
     \<lparr>sfields =
        [Field ''patientName'' SString True None None,
         Field ''dateOfBirth'' SDate True None None,
         Field ''gender'' SString False None (Some [''Male'', ''Female'', ''Other'']),
         Field ''diagnosis'' SString False None None,
         Field ''medications''
           (SArray (SSub [Field ''name'' SString False None None,
                          Field ''dosage'' SString False None None,
                          Field ''frequency'' SString False None None])) False None None,
         Field ''doctor'' (SObjectId ''Doctor'') True None None],
      stimestamps = True\<rparr>"

definition MedicalRecord :: model where
  "MedicalRecord = \<lparr>mname = ''MedicalRecord'', mschema = medicalRecordSchema\<rparr>"

subsection \<open>Properties of the data models\<close>

lemma wf_orderSchema: "wf_type (SSub (sfields orderSchema))"
  by (simp add: orderSchema_def orderItemSchema_def)

lemma wf_PatientSchema: "wf_type (SSub (sfields PatientSchema))"
  by (simp add: PatientSchema_def)

lemma wf_todoSchema: "wf_type (SSub (sfields todoSchema))"
  by (simp add: todoSchema_def)

lemma save_field_missing_required:
  assumes "get ob k \<in> {JUndefined, JNull}" and "t \<in> {SString, SNumber, SBoolean, SObjectId r, SDate}"
  shows "(p @ [PKey k], RequiredError) \<in> set (fst (save_field p ob (Field k t True None en)))"
  using assms by (auto simp: save_field.simps validate_def default_val_def)

lemma create_missing_required:
  assumes "Field k t True None en \<in> set (sfields s)" and "get ob k \<in> {JUndefined, JNull}"
    and "t \<in> {SString, SNumber, SBoolean, SObjectId r, SDate}"
  shows "\<exists>es. create s now ob = Inl es \<and> ([PKey k], RequiredError) \<in> set es"
  using create_error [OF assms(1) save_field_missing_required [OF assms(2,3), of "[]"]] by simp

lemma required_string_get:
  assumes "has_type (SSub fs) (JObj d)" and "Field k SString True dflt en \<in> set fs"
  shows "\<exists>s. get d k = JStr s \<and> s \<noteq> []"
  using has_type_get [OF assms] by (auto split: jsval.splits)


text \<open>
  C15: every item of an order stored through \<open>Order\<close> has a \<open>status\<close>, and it is one of
  \<open>PENDING\<close>, \<open>CANCELLED\<close>, \<open>DELIVERED\<close> (or \<open>null\<close>, which the enum validator admits).
\<close>

theorem order_item_status_valid:
  assumes "create orderSchema now ob = Inr d" and "get d ''orderItems'' = JArr its" and "it \<in> set its"
  shows "it = JNull \<or> (\<exists>ob. it = JObj ob \<and>
           get ob ''status'' \<in> {JStr ''PENDING'', JStr ''CANCELLED'', JStr ''DELIVERED'', JNull})"
proof -
  have "''orderItems'' \<notin> {''createdAt'', ''updatedAt''}" by simp
  from create_get [OF assms(1) wf_orderSchema this] obtain d0
    where ht: "has_type (SSub (sfields orderSchema)) (JObj d0)" and g: "get d ''orderItems'' = get d0 ''orderItems''"
    by blast
  from g assms(2) have d0: "get d0 ''orderItems'' = JArr its" by simp
  let ?items = "Field ''orderItems'' (SArray (SSub (sfields orderItemSchema))) False None None"
  have "?items \<in> set (sfields orderSchema)" by (simp add: orderSchema_def)
  from has_type_get [OF ht this] d0
  have "has_type (SArray (SSub (sfields orderItemSchema))) (JArr its)" by simp
  then have hit: "has_type (SSub (sfields orderItemSchema)) it" using assms(3) by simp
  show ?thesis
  proof (cases it)
    case (JObj ob)
    let ?status = "Field ''status'' SString False (Some (JStr ''PENDING'')) (Some [''PENDING'', ''CANCELLED'', ''DELIVERED''])"
    have st: "?status \<in> set (sfields orderItemSchema)" by (simp add: orderItemSchema_def)
    have "default_val ?status \<noteq> None" by (simp add: default_val_def)
    with has_type_get [OF hit [unfolded JObj] st]
    have "enum_ok (Some [''PENDING'', ''CANCELLED'', ''DELIVERED'']) (get ob ''status'')" by simp
    then show ?thesis using JObj by (simp split: jsval.splits)
  qed (use hit in simp_all)
qed


theorem order_item_status_valid_witness:
  "create orderSchema 0 [(''orderPrice'', JNum 25), (''customer'', JOid 7),
      (''orderItems'', JArr [JObj [(''quantity'', JNum 2), (''address'', JStr ''Main St'')]])]
     = Inr [(''orderPrice'', JNum 25), (''customer'', JOid 7),
      (''orderItems'', JArr [JObj [(''quantity'', JNum 2), (''address'', JStr ''Main St''), (''status'', JStr ''PENDING'')]]),
      (''createdAt'', JDate 0), (''updatedAt'', JDate 0)]
   \<and> get [(''orderPrice'', JNum 25), (''customer'', JOid 7),
      (''orderItems'', JArr [JObj [(''quantity'', JNum 2), (''address'', JStr ''Main St''), (''status'', JStr ''PENDING'')]]),
      (''createdAt'', JDate 0), (''updatedAt'', JDate 0)] ''orderItems''
     = JArr [JObj [(''quantity'', JNum 2), (''address'', JStr ''Main St''), (''status'', JStr ''PENDING'')]]
   \<and> get [(''quantity'', JNum 2), (''address'', JStr ''Main St''), (''status'', JStr ''PENDING'')] ''status''
       \<in> {JStr ''PENDING'', JStr ''CANCELLED'', JStr ''DELIVERED'', JNull}"
proof -
  have c: "create orderSchema 0 [(''orderPrice'', JNum 25), (''customer'', JOid 7),
      (''orderItems'', JArr [JObj [(''quantity'', JNum 2), (''address'', JStr ''Main St'')]])]
     = Inr [(''orderPrice'', JNum 25), (''customer'', JOid 7),
      (''orderItems'', JArr [JObj [(''quantity'', JNum 2), (''address'', JStr ''Main St''), (''status'', JStr ''PENDING'')]]),
      (''createdAt'', JDate 0), (''updatedAt'', JDate 0)]"
    by (simp add: model_defs orderSchema_def orderItemSchema_def)
  have g: "get [(''orderPrice'', JNum 25), (''customer'', JOid 7),
      (''orderItems'', JArr [JObj [(''quantity'', JNum 2), (''address'', JStr ''Main St''), (''status'', JStr ''PENDING'')]]),
      (''createdAt'', JDate 0), (''updatedAt'', JDate 0)] ''orderItems''
     = JArr [JObj [(''quantity'', JNum 2), (''address'', JStr ''Main St''), (''status'', JStr ''PENDING'')]]"
    by simp
  from order_item_status_valid [OF c g] show ?thesis using c g by simp
qed

text \<open>
  C16: an order item given without a \<open>status\<close> is stored with the default \<open>PENDING\<close>.
\<close>

theorem order_item_status_default:
  assumes "cast_val p (SSub (sfields orderItemSchema)) (JObj it) = Inr (JObj d)"
    and "get it ''status'' = JUndefined"
  shows "get d ''status'' = JStr ''PENDING''"
proof -
  have a: "(case save_fields p (sfields orderItemSchema) it of
            (es, d') \<Rightarrow> if es = [] then Inr (JObj d') else Inl es) = Inr (JObj d)"
    using assms(1) unfolding cast_val_SSub .
  obtain es where sf: "save_fields p (sfields orderItemSchema) it = (es, d)"
    using a by (cases "save_fields p (sfields orderItemSchema) it") (simp split: if_splits)
  have dist: "distinct (map fname (sfields orderItemSchema))" by (simp add: orderItemSchema_def)
  have st: "Field ''status'' SString False (Some (JStr ''PENDING'')) (Some [''PENDING'', ''CANCELLED'', ''DELIVERED''])
              \<in> set (sfields orderItemSchema)" by (simp add: orderItemSchema_def)
  show ?thesis
    using save_fields_get [OF dist st sf] assms(2)
    by (simp add: save_field.simps validate_def default_val_def)
qed

theorem order_item_status_default_witness:
  "cast_val [] (SSub (sfields orderItemSchema)) (JObj [(''quantity'', JNum 1), (''address'', JStr ''Elm St'')])
     = Inr (JObj [(''quantity'', JNum 1), (''address'', JStr ''Elm St''), (''status'', JStr ''PENDING'')])
   \<and> get [(''quantity'', JNum 1), (''address'', JStr ''Elm St'')] ''status'' = JUndefined
   \<and> get [(''quantity'', JNum 1), (''address'', JStr ''Elm St''), (''status'', JStr ''PENDING'')] ''status''
       = JStr ''PENDING''"
proof -
  have c: "cast_val [] (SSub (sfields orderItemSchema)) (JObj [(''quantity'', JNum 1), (''address'', JStr ''Elm St'')])
     = Inr (JObj [(''quantity'', JNum 1), (''address'', JStr ''Elm St''), (''status'', JStr ''PENDING'')])"
    by (simp add: model_defs orderItemSchema_def)
  have u: "get [(''quantity'', JNum 1), (''address'', JStr ''Elm St'')] ''status'' = JUndefined" by simp
  show ?thesis using order_item_status_default [OF c u] c u by simp
qed

text \<open>
  C17: a stored patient has all seven required paths: non-empty strings for the name, diagnosis,
  address and blood group, a number for the age, an ObjectId for the hospital, and a gender among
  \<open>MALE\<close>, \<open>FEMALE\<close>, \<open>OTHERS\<close>.
\<close>

theorem patient_doc_valid:
  assumes "create PatientSchema now ob = Inr d"
  shows "get d ''gender'' \<in> {JStr ''MALE'', JStr ''FEMALE'', JStr ''OTHERS''}
     \<and> (\<forall>k \<in> {''name'', ''diagonsedWith'', ''address'', ''bloodGroup''}. \<exists>s. get d k = JStr s \<and> s \<noteq> [])
     \<and> (\<exists>n. get d ''age'' = JNum n) \<and> (\<exists>w. get d ''admittedIn'' = JOid w)"
proof -
  have ts: "k \<notin> {''createdAt'', ''updatedAt''}"
    if "k \<in> {''gender'', ''name'', ''diagonsedWith'', ''address'', ''bloodGroup'', ''age'', ''admittedIn''}" for k
    using that by auto
  obtain d0 where d: "d = d0 @ timestamps_of PatientSchema now"
    and ht: "has_type (SSub (sfields PatientSchema)) (JObj d0)"
    using create_conforms [OF wf_PatientSchema assms] by blast
  have tsk: "timestamps_of PatientSchema now = [(''createdAt'', JDate now), (''updatedAt'', JDate now)]"
    by (simp add: timestamps_of_def PatientSchema_def)
  have g: "get d k = get d0 k" if "k \<in> {''gender'', ''name'', ''diagonsedWith'', ''address'', ''bloodGroup'', ''age'', ''admittedIn''}" for k
    using that by (auto simp: d tsk get_append)
  have fields: "Field ''gender'' SString True None (Some [''MALE'', ''FEMALE'', ''OTHERS'']) \<in> set (sfields PatientSchema)"
    "Field ''name'' SString True None None \<in> set (sfields PatientSchema)"
    "Field ''diagonsedWith'' SString True None None \<in> set (sfields PatientSchema)"
    "Field ''address'' SString True None None \<in> set (sfields PatientSchema)"
    "Field ''bloodGroup'' SString True None None \<in> set (sfields PatientSchema)"
    "Field ''age'' SNumber True None None \<in> set (sfields PatientSchema)"
    "Field ''admittedIn'' (SObjectId ''Hospital'') True None None \<in> set (sfields PatientSchema)"
    by (simp_all add: PatientSchema_def)
  have gender: "get d0 ''gender'' \<in> {JStr ''MALE'', JStr ''FEMALE'', JStr ''OTHERS''}"
    using has_type_get [OF ht fields(1)] by (auto split: jsval.splits)
  have strs: "\<exists>s. get d0 k = JStr s \<and> s \<noteq> []" if "k \<in> {''name'', ''diagonsedWith'', ''address'', ''bloodGroup''}" for k
    using that required_string_get [OF ht fields(2)] required_string_get [OF ht fields(3)]
      required_string_get [OF ht fields(4)] required_string_get [OF ht fields(5)] by auto
  have age: "\<exists>n. get d0 ''age'' = JNum n"
    using has_type_get [OF ht fields(6)] by (auto split: jsval.splits)
  have adm: "\<exists>w. get d0 ''admittedIn'' = JOid w"
    using has_type_get [OF ht fields(7)] by (auto split: jsval.splits)
  show ?thesis using gender strs age adm g by simp
qed

theorem patient_doc_valid_witness:
  "create PatientSchema 0
      [(''name'', JStr ''Ann''), (''diagonsedWith'', JStr ''flu''), (''address'', JStr ''Main St''), (''age'', JNum 40), (''bloodGroup'', JStr ''O+''), (''gender'', JStr ''FEMALE''), (''admittedIn'', JOid 3)]
     = Inr [(''name'', JStr ''Ann''), (''diagonsedWith'', JStr ''flu''), (''address'', JStr ''Main St''), (''age'', JNum 40), (''bloodGroup'', JStr ''O+''), (''gender'', JStr ''FEMALE''), (''admittedIn'', JOid 3), (''createdAt'', JDate 0), (''updatedAt'', JDate 0)]
   \<and> get [(''name'', JStr ''Ann''), (''diagonsedWith'', JStr ''flu''), (''address'', JStr ''Main St''), (''age'', JNum 40), (''bloodGroup'', JStr ''O+''), (''gender'', JStr ''FEMALE''), (''admittedIn'', JOid 3), (''createdAt'', JDate 0), (''updatedAt'', JDate 0)] ''gender'' = JStr ''FEMALE''"
proof -
  have c: "create PatientSchema 0
      [(''name'', JStr ''Ann''), (''diagonsedWith'', JStr ''flu''), (''address'', JStr ''Main St''), (''age'', JNum 40), (''bloodGroup'', JStr ''O+''), (''gender'', JStr ''FEMALE''), (''admittedIn'', JOid 3)]
     = Inr [(''name'', JStr ''Ann''), (''diagonsedWith'', JStr ''flu''), (''address'', JStr ''Main St''), (''age'', JNum 40), (''bloodGroup'', JStr ''O+''), (''gender'', JStr ''FEMALE''), (''admittedIn'', JOid 3), (''createdAt'', JDate 0), (''updatedAt'', JDate 0)]"
    by (simp add: model_defs PatientSchema_def)
  show ?thesis using patient_doc_valid [OF c] c by simp
qed

text \<open>
  C18: the two hospital schemas spell gender differently: whatever gender a stored patient
  has, a medical record given that gender is rejected with an enum error at \<open>gender\<close>.
\<close>

theorem patient_gender_rejected_by_medical_record:
  assumes "create PatientSchema now ob = Inr d" and "get ob2 ''gender'' = get d ''gender''"
  shows "\<exists>es. create medicalRecordSchema now' ob2 = Inl es \<and> ([PKey ''gender''], EnumError) \<in> set es"
proof -
  obtain d0 where ht: "has_type (SSub (sfields PatientSchema)) (JObj d0)" and g: "get d ''gender'' = get d0 ''gender''"
    using create_get [OF assms(1) wf_PatientSchema, of "''gender''"] by auto
  have fp: "Field ''gender'' SString True None (Some [''MALE'', ''FEMALE'', ''OTHERS'']) \<in> set (sfields PatientSchema)"
    by (simp add: PatientSchema_def)
  have "get d0 ''gender'' \<in> {JStr ''MALE'', JStr ''FEMALE'', JStr ''OTHERS''}"
    using has_type_get [OF ht fp] by (auto split: jsval.splits)
  then have "get ob2 ''gender'' \<in> {JStr ''MALE'', JStr ''FEMALE'', JStr ''OTHERS''}"
    using assms(2) g by simp
  then have "([PKey ''gender''], EnumError)
      \<in> set (fst (save_field [] ob2 (Field ''gender'' SString False None (Some [''Male'', ''Female'', ''Other'']))))"
    by (auto simp: save_field.simps validate_def)
  moreover have "Field ''gender'' SString False None (Some [''Male'', ''Female'', ''Other''])
      \<in> set (sfields medicalRecordSchema)"
    by (simp add: medicalRecordSchema_def)
  ultimately show ?thesis using create_error by blast
qed

theorem patient_gender_rejected_by_medical_record_witness:
  "\<exists>es. create medicalRecordSchema 0 [(''patientName'', JStr ''Ann''), (''dateOfBirth'', JDate 0),
      (''gender'', JStr ''MALE''), (''doctor'', JOid 5)] = Inl es \<and> ([PKey ''gender''], EnumError) \<in> set es"
proof -
  have c: "create PatientSchema 0 [(''name'', JStr ''Ann''), (''diagonsedWith'', JStr ''flu''),
      (''address'', JStr ''Main St''), (''age'', JNum 40), (''bloodGroup'', JStr ''O+''),
      (''gender'', JStr ''MALE''), (''admittedIn'', JOid 3)]
     = Inr [(''name'', JStr ''Ann''), (''diagonsedWith'', JStr ''flu''),
      (''address'', JStr ''Main St''), (''age'', JNum 40), (''bloodGroup'', JStr ''O+''),
      (''gender'', JStr ''MALE''), (''admittedIn'', JOid 3), (''createdAt'', JDate 0), (''updatedAt'', JDate 0)]"
    by (simp add: model_defs PatientSchema_def)
  have "get [(''patientName'', JStr ''Ann''), (''dateOfBirth'', JDate 0), (''gender'', JStr ''MALE''), (''doctor'', JOid 5)] ''gender''
      = get [(''name'', JStr ''Ann''), (''diagonsedWith'', JStr ''flu''),
      (''address'', JStr ''Main St''), (''age'', JNum 40), (''bloodGroup'', JStr ''O+''),
      (''gender'', JStr ''MALE''), (''admittedIn'', JOid 3), (''createdAt'', JDate 0), (''updatedAt'', JDate 0)] ''gender''"
    by simp
  from patient_gender_rejected_by_medical_record [OF c this] show ?thesis .
qed

text \<open>
  C19: a todo without content (missing, \<open>null\<close> or empty) is rejected, with a required error at
  \<open>content\<close>.
\<close>

theorem todo_content_required:
  assumes "get ob ''content'' \<in> {JUndefined, JNull, JStr []}"
  shows "\<exists>es. create todoSchema now ob = Inl es \<and> ([PKey ''content''], RequiredError) \<in> set es"
proof -
  have f: "Field ''content'' SString True None None \<in> set (sfields todoSchema)"
    by (simp add: todoSchema_def)
  show ?thesis
    using create_error [OF f save_field_missing_required_string [OF assms, of "[]"]] by simp
qed

theorem todo_content_required_witness:
  "get [(''completed'', JBool True)] ''content'' \<in> {JUndefined, JNull, JStr []}
   \<and> (\<exists>es. create todoSchema 0 [(''completed'', JBool True)] = Inl es
           \<and> ([PKey ''content''], RequiredError) \<in> set es)"
proof -
  have h: "get [(''completed'', JBool True)] ''content'' \<in> {JUndefined, JNull, JStr []}" by simp
  show ?thesis using todo_content_required [OF h] h by simp
qed

text \<open>
  C20: a todo created without \<open>completed\<close> and \<open>subTodos\<close> is stored with
  \<open>completed = false\<close> and an empty \<open>subTodos\<close> array.
\<close>

theorem todo_defaults:
  assumes "create todoSchema now ob = Inr d"
    and "get ob ''completed'' = JUndefined" and "get ob ''subTodos'' = JUndefined"
  shows "get d ''completed'' = JBool False \<and> get d ''subTodos'' = JArr []"
proof -
  obtain d0 where sf: "save_fields [] (sfields todoSchema) ob = ([], d0)"
    and d: "d = d0 @ timestamps_of todoSchema now"
    using assms(1) by (cases "save_fields [] (sfields todoSchema) ob") (auto simp: create_def split: if_splits)
  have dist: "distinct (map fname (sfields todoSchema))" by (simp add: todoSchema_def)
  have fc: "Field ''completed'' SBoolean False (Some (JBool False)) None \<in> set (sfields todoSchema)"
    and fs: "Field ''subTodos'' (SArray (SObjectId ''SubTodo'')) False None None \<in> set (sfields todoSchema)"
    by (simp_all add: todoSchema_def)
  have "get d0 ''completed'' = JBool False"
    using save_fields_get [OF dist fc sf] assms(2)
    by (simp add: save_field.simps validate_def default_val_def)
  moreover have "get d0 ''subTodos'' = JArr []"
    using save_fields_get [OF dist fs sf] assms(3)
    by (simp add: save_field.simps validate_def default_val_def)
  moreover have "timestamps_of todoSchema now = [(''createdAt'', JDate now), (''updatedAt'', JDate now)]"
    by (simp add: timestamps_of_def todoSchema_def)
  ultimately show ?thesis by (simp add: d get_append)
qed

theorem todo_defaults_witness:
  "create todoSchema 0 [(''content'', JStr ''buy milk'')]
     = Inr [(''content'', JStr ''buy milk''), (''completed'', JBool False), (''subTodos'', JArr []),
            (''createdAt'', JDate 0), (''updatedAt'', JDate 0)]
   \<and> get [(''content'', JStr ''buy milk'')] ''completed'' = JUndefined
   \<and> get [(''content'', JStr ''buy milk'')] ''subTodos'' = JUndefined
   \<and> get [(''content'', JStr ''buy milk''), (''completed'', JBool False), (''subTodos'', JArr []),
            (''createdAt'', JDate 0), (''updatedAt'', JDate 0)] ''completed'' = JBool False"
proof -
  have c: "create todoSchema 0 [(''content'', JStr ''buy milk'')]
     = Inr [(''content'', JStr ''buy milk''), (''completed'', JBool False), (''subTodos'', JArr []),
            (''createdAt'', JDate 0), (''updatedAt'', JDate 0)]"
    by (simp add: model_defs todoSchema_def)
  have u1: "get [(''content'', JStr ''buy milk'')] ''completed'' = JUndefined" by simp
  have u2: "get [(''content'', JStr ''buy milk'')] ''subTodos'' = JUndefined" by simp
  show ?thesis using todo_defaults [OF c u1 u2] c u1 u2 by simp
qed


text \<open>
  C27: an order missing \<open>orderPrice\<close> or \<open>customer\<close> (or given \<open>null\<close>) is rejected
  with a required error at that path.
\<close>

theorem order_required_paths:
  assumes "k \<in> {''orderPrice'', ''customer''}" and "get ob k \<in> {JUndefined, JNull}"
  shows "\<exists>es. create orderSchema now ob = Inl es \<and> ([PKey k], RequiredError) \<in> set es"
proof -
  have "Field ''orderPrice'' SNumber True None None \<in> set (sfields orderSchema)"
    and "Field ''customer'' (SObjectId ''User'') True None None \<in> set (sfields orderSchema)"
    by (simp_all add: orderSchema_def)
  then show ?thesis using assms create_missing_required by fastforce
qed

theorem order_required_paths_witness:
  "\<exists>es. create orderSchema 0 [(''orderPrice'', JNum 20)] = Inl es \<and> ([PKey ''customer''], RequiredError) \<in> set es"
  using order_required_paths [of "''customer''" "[(''orderPrice'', JNum 20)]" 0] by simp

text \<open>
  C28: a medical record missing \<open>patientName\<close>, \<open>dateOfBirth\<close> or \<open>doctor\<close> (or given
  \<open>null\<close>) is rejected with a required error at that path.
\<close>

theorem medical_record_required_paths:
  assumes "k \<in> {''patientName'', ''dateOfBirth'', ''doctor''}" and "get ob k \<in> {JUndefined, JNull}"
  shows "\<exists>es. create medicalRecordSchema now ob = Inl es \<and> ([PKey k], RequiredError) \<in> set es"
proof -
  have "Field ''patientName'' SString True None None \<in> set (sfields medicalRecordSchema)"
    and "Field ''dateOfBirth'' SDate True None None \<in> set (sfields medicalRecordSchema)"
    and "Field ''doctor'' (SObjectId ''Doctor'') True None None \<in> set (sfields medicalRecordSchema)"
    by (simp_all add: medicalRecordSchema_def)
  then show ?thesis using assms create_missing_required by fastforce
qed

theorem medical_record_required_paths_witness:
  "\<exists>es. create medicalRecordSchema 0 [(''patientName'', JStr ''Ann''), (''dateOfBirth'', JDate 0), (''doctor'', JNull)]
     = Inl es \<and> ([PKey ''doctor''], RequiredError) \<in> set es"
  using medical_record_required_paths [of "''doctor''"
      "[(''patientName'', JStr ''Ann''), (''dateOfBirth'', JDate 0), (''doctor'', JNull)]" 0] by simp

end
