(* ===== verification/UserController.thy ===== *)
theory UserController
  imports MongooseSchema
begin

text \<open>
  The five handlers of \<open>src/Update Controller for user/user.controller.js\<close> and the
  helpers they call. The helpers are not in the repository (the spec says so:
  \<open>asyncHandler\<close>, \<open>ApiError\<close>, \<open>ApiResponse\<close>, the \<open>User\<close> model and
  \<open>uploadOnCloudinary\<close> are imported from files that are not included); they are modelled
  from the spec as the controllers use them:
  \<^item> \<open>asyncHandler\<close> forwards a thrown error to Express's default error handler, which
    answers with the error's \<open>statusCode\<close> (a 4xx or 5xx) or 500;
  \<^item> \<open>ApiResponse\<close> is the object \<open>{statusCode, data, message, success}\<close>;
  \<^item> the \<open>User\<close> documents the handlers touch have an \<open>_id\<close>, \<open>fullName\<close>,
    \<open>email\<close>, \<open>avatar\<close>, \<open>coverImage\<close> (strings) and a bcrypt-hashed \<open>password\<close>;
    \<open>user.isPasswordCorrect(p)\<close> is \<open>bcrypt.compare(p, this.password)\<close> and a save with
    a modified password re-hashes it in a pre-save hook;
  \<^item> \<open>uploadOnCloudinary(path)\<close> resolves to Cloudinary's response object or to
    \<open>null\<close> when the upload fails.
  bcrypt is modelled by its interface: a hash is a salt and a digest, the digest is a
  key-derivation function \<open>kdf\<close> (a parameter) of the salt and of the first 72 bytes of
  the password, which is all bcrypt reads. The environment \<open>env\<close> supplies \<open>kdf\<close>, the
  salt of the next hash and the upload's result.

  A handler's body runs on a request and the user collection (\<open>db\<close>, a map from
  ObjectId to user) and ends in an exception or in the response it sends (\<open>None\<close> when
  it sends none), with the collection after its writes; \<open>asyncHandler\<close> turns the body
  into the exported handler.
\<close>

subsection \<open>Helpers\<close>

definition ApiResponse :: "nat \<Rightarrow> jsval \<Rightarrow> string \<Rightarrow> jsval" where
  "ApiResponse statusCode data message =
     JObj [(''statusCode'', JNum (int statusCode)), (''data'', data), (''message'', JStr message),
           (''success'', JBool (statusCode < 400))]"

text \<open>\<open>res.status(n).json(v)\<close>.\<close>

definition json_response :: "nat \<Rightarrow> jsval \<Rightarrow> response" where
  "json_response n v = \<lparr>status = n, resp_body = JsonBody v\<rparr>"

text \<open>The status Express's default error handler picks for an error.\<close>

fun error_status :: "exn \<Rightarrow> nat" where
  "error_status (ApiError n _) = (if 400 \<le> n \<and> n < 600 then n else 500)"
| "error_status _ = 500"

definition asyncHandler ::
  "('r \<Rightarrow> 's \<Rightarrow> (exn + response option) \<times> 's) \<Rightarrow> 'r \<Rightarrow> 's \<Rightarrow> response option \<times> 's" where
  "asyncHandler h req s =
     (case h req s of
        (Inl e, s') \<Rightarrow> (Some \<lparr>status = error_status e, resp_body = ErrorPage (error_status e)\<rparr>, s')
      | (Inr r, s') \<Rightarrow> (r, s'))"

subsection \<open>Users, bcrypt and the environment\<close>

datatype bhash = BHash nat string

record user =
  u_id :: oid
  u_fullName :: string
  u_email :: string
  u_password :: bhash
  u_avatar :: string
  u_coverImage :: string

type_synonym db = "oid \<Rightarrow> user option"

record env =
  kdf :: "nat \<Rightarrow> string \<Rightarrow> string"
  next_salt :: nat
  uploadOnCloudinary :: "jsval \<Rightarrow> jsval"

record request =
  req_body :: jsval
  req_user :: jsval
  req_file :: jsval

text \<open>\<open>bcrypt.compare(data, hash)\<close>: throws unless \<open>data\<close> is a string.\<close>

fun bcrypt_compare :: "env \<Rightarrow> jsval \<Rightarrow> bhash \<Rightarrow> exn + bool" where
  "bcrypt_compare E (JStr s) (BHash salt digest) = Inr (kdf E salt (take 72 s) = digest)"
| "bcrypt_compare E _ h = Inl (LibError ''data and hash arguments required'')"

text \<open>\<open>bcrypt.hash(s, 10)\<close> with the salt the environment supplies.\<close>

definition bcrypt_hash :: "env \<Rightarrow> string \<Rightarrow> bhash" where
  "bcrypt_hash E s = BHash (next_salt E) (kdf E (next_salt E) (take 72 s))"

definition isPasswordCorrect :: "env \<Rightarrow> user \<Rightarrow> jsval \<Rightarrow> exn + bool" where
  "isPasswordCorrect E u p = bcrypt_compare E p (u_password u)"

text \<open>
  \<open>user.password = v\<close> casts \<open>v\<close> to the path's type \<open>String\<close>, and the pre-save hook
  hashes the result: \<open>bcrypt.hash\<close> throws on \<open>undefined\<close> and \<open>null\<close>, and a value
  that does not cast to a string (an array or a plain object) is taken to fail the save.
  Mongoose may instead drop such an assignment and, with \<open>validateBeforeSave: false\<close>,
  save the unchanged document; no property below depends on this branch.
\<close>

definition password_value :: "jsval \<Rightarrow> exn + string" where
  "password_value v =
     (if v = JUndefined \<or> v = JNull then Inl (LibError ''data and salt arguments required'')
      else case cast_scalar SString v of
             Some (JStr s) \<Rightarrow> Inr s
           | _ \<Rightarrow> Inl (LibError ''Cast to string failed''))"

text \<open>A value assigned to a \<open>String\<close> path by an update (\<open>$set\<close>).\<close>

definition cast_set :: "jsval \<Rightarrow> exn + string" where
  "cast_set v = (case cast_scalar SString v of Some (JStr s) \<Rightarrow> Inr s | _ \<Rightarrow> Inl (LibError ''Cast to string failed''))"

text \<open>
  The id a query is given: \<open>undefined\<close> and \<open>null\<close> match no document, an ObjectId or
  its 24-digit hexadecimal string select one, anything else fails to cast.
\<close>

definition cast_id :: "jsval \<Rightarrow> exn + oid option" where
  "cast_id v =
     (case v of
        JUndefined \<Rightarrow> Inr None
      | JNull \<Rightarrow> Inr None
      | JOid w \<Rightarrow> Inr (Some w)
      | JStr s \<Rightarrow> (case oid_of_hex s of Some w \<Rightarrow> Inr (Some w) | None \<Rightarrow> Inl (LibError ''Cast to ObjectId failed''))
      | _ \<Rightarrow> Inl (LibError ''Cast to ObjectId failed''))"

text \<open>\<open>User.findById(id)\<close>.\<close>

definition findById :: "db \<Rightarrow> jsval \<Rightarrow> exn + user option" where
  "findById db v = (case cast_id v of Inl e \<Rightarrow> Inl e | Inr None \<Rightarrow> Inr None | Inr (Some w) \<Rightarrow> Inr (db w))"

text \<open>
  \<open>User.findByIdAndUpdate(id, {$set: ...}, {new: true})\<close>: the updated document (or
  \<open>null\<close>) and the collection after the write.
\<close>

definition findByIdAndUpdate :: "db \<Rightarrow> jsval \<Rightarrow> (user \<Rightarrow> user) \<Rightarrow> exn + user option \<times> db" where
  "findByIdAndUpdate db v f =
     (case cast_id v of
        Inl e \<Rightarrow> Inl e
      | Inr None \<Rightarrow> Inr (None, db)
      | Inr (Some w) \<Rightarrow>
          (case db w of None \<Rightarrow> Inr (None, db) | Some u \<Rightarrow> Inr (Some (f u), db(w \<mapsto> f u))))"

text \<open>
  \<open>user.save()\<close> of a loaded document whose password was modified writes that path
  (\<open>$set\<close>) to the stored document; the document must still exist.
\<close>

definition save_password :: "db \<Rightarrow> oid \<Rightarrow> bhash \<Rightarrow> db option" where
  "save_password db w h = (case db w of None \<Rightarrow> None | Some u \<Rightarrow> Some (db(w \<mapsto> u\<lparr>u_password := h\<rparr>)))"

text \<open>
  A user document as the query returns it, with all its paths, the bcrypt hash string
  in \<open>password\<close> included; \<open>null\<close> when no document matched.
\<close>

fun hash_string :: "bhash \<Rightarrow> string" where
  "hash_string (BHash salt digest) = ''$2b$'' @ show_int (int salt) @ ''$'' @ digest"

definition user_doc :: "user \<Rightarrow> obj" where
  "user_doc u =
     [(''_id'', JOid (u_id u)), (''fullName'', JStr (u_fullName u)), (''email'', JStr (u_email u)),
      (''password'', JStr (hash_string (u_password u))),
      (''avatar'', JStr (u_avatar u)), (''coverImage'', JStr (u_coverImage u))]"

definition doc_json :: "user option \<Rightarrow> jsval" where
  "doc_json uo = (case uo of None \<Rightarrow> JNull | Some u \<Rightarrow> JObj (user_doc u))"

text \<open>\<open>.select("-k1 -k2 ...")\<close>: the exclusion projection of the query's result.\<close>

fun select_exclude :: "string list \<Rightarrow> jsval \<Rightarrow> jsval" where
  "select_exclude ks (JObj ob) = JObj (filter (\<lambda>kv. fst kv \<notin> set ks) ob)"
| "select_exclude ks v = v"

text \<open>A user as the handlers send it after \<open>.select("-password")\<close>.\<close>

definition user_json :: "user \<Rightarrow> jsval" where
  "user_json u = select_exclude [''password''] (JObj (user_doc u))"

subsection \<open>The handlers\<close>

definition changeCurrentPassword_body :: "env \<Rightarrow> request \<Rightarrow> db \<Rightarrow> (exn + response option) \<times> db" where
  "changeCurrentPassword_body E req db =
     (case prop_read (req_body req) ''oldPassword'' of Inl e \<Rightarrow> (Inl e, db) | Inr oldPassword \<Rightarrow>
      case prop_read (req_body req) ''newPassword'' of Inl e \<Rightarrow> (Inl e, db) | Inr newPassword \<Rightarrow>
      case findById db (opt_get (req_user req) ''_id'') of
        Inl e \<Rightarrow> (Inl e, db)
      | Inr None \<Rightarrow> (Inl (TypeError ''Cannot read properties of null (reading isPasswordCorrect)''), db)
      | Inr (Some user) \<Rightarrow>
          (case isPasswordCorrect E user oldPassword of
             Inl e \<Rightarrow> (Inl e, db)
           | Inr False \<Rightarrow> (Inl (ApiError 400 ''Old invalid password''), db)
           | Inr True \<Rightarrow>
               (case password_value newPassword of
                  Inl e \<Rightarrow> (Inl e, db)
                | Inr s \<Rightarrow>
                    (case save_password db (u_id user) (bcrypt_hash E s) of
                       None \<Rightarrow> (Inl (LibError ''No document found''), db)
                     | Some db' \<Rightarrow>
                         (Inr (Some (json_response 200 (ApiResponse 200 (JObj []) ''Password changed successfully''))),
                          db')))))"

definition changeCurrentPassword :: "env \<Rightarrow> request \<Rightarrow> db \<Rightarrow> response option \<times> db" where
  "changeCurrentPassword E = asyncHandler (changeCurrentPassword_body E)"

definition getCurrentUser_body :: "env \<Rightarrow> request \<Rightarrow> db \<Rightarrow> (exn + response option) \<times> db" where
  "getCurrentUser_body E req db =
     (Inr (Some (json_response 200 (ApiResponse 200 (req_user req) ''Current User fetched successfully''))), db)"

definition getCurrentUser :: "env \<Rightarrow> request \<Rightarrow> db \<Rightarrow> response option \<times> db" where
  "getCurrentUser E = asyncHandler (getCurrentUser_body E)"

definition updateAccountDetails_body :: "env \<Rightarrow> request \<Rightarrow> db \<Rightarrow> (exn + response option) \<times> db" where
  "updateAccountDetails_body E req db =
     (case prop_read (req_body req) ''fullName'' of Inl e \<Rightarrow> (Inl e, db) | Inr fullName \<Rightarrow>
      case prop_read (req_body req) ''email'' of Inl e \<Rightarrow> (Inl e, db) | Inr email \<Rightarrow>
      if \<not> truthy fullName \<or> \<not> truthy email then (Inl (ApiError 400 ''All fields are required''), db)
      else
        (case cast_set fullName of Inl e \<Rightarrow> (Inl e, db) | Inr fn \<Rightarrow>
         case cast_set email of Inl e \<Rightarrow> (Inl e, db) | Inr em \<Rightarrow>
         case findByIdAndUpdate db (opt_get (req_user req) ''_id'') (\<lambda>u. u\<lparr>u_fullName := fn, u_email := em\<rparr>) of
           Inl e \<Rightarrow> (Inl e, db)
         | Inr (uo, db') \<Rightarrow>
             (Inr (Some (json_response 200
                (ApiResponse 200 (select_exclude [''password''] (doc_json uo)) ''Account details updated successfully''))), db')))"

definition updateAccountDetails :: "env \<Rightarrow> request \<Rightarrow> db \<Rightarrow> response option \<times> db" where
  "updateAccountDetails E = asyncHandler (updateAccountDetails_body E)"

text \<open>The body ends after the update without sending a response (the source has no \<open>return res...\<close>).\<close>

definition updateUserAvatar_body :: "env \<Rightarrow> request \<Rightarrow> db \<Rightarrow> (exn + response option) \<times> db" where
  "updateUserAvatar_body E req db =
     (let avatarLocalPath = opt_get (req_file req) ''path'' in
      if \<not> truthy avatarLocalPath then (Inl (ApiError 400 ''Avatar file is missing''), db)
      else
        (case prop_read (uploadOnCloudinary E avatarLocalPath) ''url'' of Inl e \<Rightarrow> (Inl e, db) | Inr url \<Rightarrow>
         if \<not> truthy url then (Inl (ApiError 400 ''Error while uploading on Cloudinary''), db)
         else
           (case cast_set url of Inl e \<Rightarrow> (Inl e, db) | Inr a \<Rightarrow>
            case findByIdAndUpdate db (opt_get (req_user req) ''_id'') (\<lambda>u. u\<lparr>u_avatar := a\<rparr>) of
              Inl e \<Rightarrow> (Inl e, db)
            | Inr (uo, db') \<Rightarrow> (Inr None, db'))))"

definition updateUserAvatar :: "env \<Rightarrow> request \<Rightarrow> db \<Rightarrow> response option \<times> db" where
  "updateUserAvatar E = asyncHandler (updateUserAvatar_body E)"

definition updateUserCoverImage_body :: "env \<Rightarrow> request \<Rightarrow> db \<Rightarrow> (exn + response option) \<times> db" where
  "updateUserCoverImage_body E req db =
     (let coverImageLocalPath = opt_get (req_file req) ''path'' in
      if \<not> truthy coverImageLocalPath then (Inl (ApiError 400 ''Cover image file is missing''), db)
      else
        (case prop_read (uploadOnCloudinary E coverImageLocalPath) ''url'' of Inl e \<Rightarrow> (Inl e, db) | Inr url \<Rightarrow>
         if \<not> truthy url then (Inl (ApiError 400 ''Error while uploading on Cloudinary''), db)
         else
           (case cast_set url of Inl e \<Rightarrow> (Inl e, db) | Inr c \<Rightarrow>
            case findByIdAndUpdate db (opt_get (req_user req) ''_id'') (\<lambda>u. u\<lparr>u_coverImage := c\<rparr>) of
              Inl e \<Rightarrow> (Inl e, db)
            | Inr (uo, db') \<Rightarrow>
                (Inr (Some (json_response 200
                   (ApiResponse 200 (select_exclude [''password''] (doc_json uo)) ''Cover image updated successfully''))), db'))))"

definition updateUserCoverImage :: "env \<Rightarrow> request \<Rightarrow> db \<Rightarrow> response option \<times> db" where
  "updateUserCoverImage E = asyncHandler (updateUserCoverImage_body E)"

subsection \<open>Sample data\<close>

text \<open>
  A stored user and two environments, used by the witnesses below: the key-derivation
  function is the identity on the 72-byte prefix, and the upload either succeeds with a
  URL or fails with \<open>null\<close>.
\<close>

definition ex_env :: env where
  "ex_env = \<lparr>kdf = (\<lambda>salt s. s), next_salt = 1,
             uploadOnCloudinary = (\<lambda>v. JObj [(''url'', JStr ''http://res.cloudinary.com/x.png'')])\<rparr>"

definition ex_env_down :: env where
  "ex_env_down = ex_env\<lparr>uploadOnCloudinary := (\<lambda>v. JNull)\<rparr>"

definition ex_user :: user where
  "ex_user = \<lparr>u_id = 7, u_fullName = ''Ann'', u_email = ''ann@example.com'', u_password = BHash 0 ''secret'',
              u_avatar = [], u_coverImage = []\<rparr>"

definition ex_req :: "obj \<Rightarrow> jsval \<Rightarrow> request" where
  "ex_req b file = \<lparr>req_body = JObj b, req_user = JObj [(''_id'', JOid 7), (''fullName'', JStr ''Ann'')],
                    req_file = file\<rparr>"

lemmas handler_defs = asyncHandler_def findById_def findByIdAndUpdate_def cast_id_def
  isPasswordCorrect_def password_value_def save_password_def cast_set_def doc_json_def user_json_def

lemmas ex_defs = ex_env_def ex_env_down_def ex_user_def ex_req_def

subsection \<open>Behaviour of the handlers\<close>

text \<open>
  Each lemma fixes the branch a request takes through a handler (the shape of the
  request body, the stored user, the upload's result) and states the response sent and
  the collection after the handler, errors included.
\<close>

text \<open>
  C1: \<open>changeCurrentPassword\<close> with the right old password answers 200 with an empty
  \<open>data\<close> object and stores the bcrypt hash of the new password in the user's document,
  changing nothing else; the new password then verifies against the stored hash.
\<close>

theorem change_password_success:
  assumes "req_body req = JObj b" and "get b ''oldPassword'' = JStr old" and "get b ''newPassword'' = JStr new"
    and "opt_get (req_user req) ''_id'' = JOid (u_id u)" and "db (u_id u) = Some u"
    and "bcrypt_compare E (JStr old) (u_password u) = Inr True"
  shows "changeCurrentPassword E req db =
           (Some (json_response 200 (ApiResponse 200 (JObj []) ''Password changed successfully'')),
            db(u_id u \<mapsto> u\<lparr>u_password := bcrypt_hash E new\<rparr>))
         \<and> bcrypt_compare E (JStr new) (bcrypt_hash E new) = Inr True"
  using assms by (simp add: changeCurrentPassword_def changeCurrentPassword_body_def handler_defs bcrypt_hash_def)

theorem change_password_success_witness:
  "changeCurrentPassword ex_env (ex_req [(''oldPassword'', JStr ''secret''), (''newPassword'', JStr ''n3w'')] JUndefined)
      [7 \<mapsto> ex_user] =
     (Some (json_response 200 (ApiResponse 200 (JObj []) ''Password changed successfully'')),
      [7 \<mapsto> ex_user\<lparr>u_password := BHash 1 ''n3w''\<rparr>])
   \<and> bcrypt_compare ex_env (JStr ''n3w'') (bcrypt_hash ex_env ''n3w'') = Inr True"
  using change_password_success [where db = "[7 \<mapsto> ex_user]" and u = ex_user and E = ex_env
      and req = "ex_req [(''oldPassword'', JStr ''secret''), (''newPassword'', JStr ''n3w'')] JUndefined"
      and b = "[(''oldPassword'', JStr ''secret''), (''newPassword'', JStr ''n3w'')]"
      and old = "''secret''" and new = "''n3w''"]
  by (simp add: ex_defs bcrypt_hash_def)

text \<open>
  C2: \<open>changeCurrentPassword\<close> with a wrong old password answers 400
  ("Old invalid password") and writes nothing.
\<close>

theorem change_password_wrong_old:
  assumes "req_body req = JObj b" and "get b ''oldPassword'' = JStr old"
    and "opt_get (req_user req) ''_id'' = JOid (u_id u)" and "db (u_id u) = Some u"
    and "bcrypt_compare E (JStr old) (u_password u) = Inr False"
  shows "changeCurrentPassword E req db = (Some \<lparr>status = 400, resp_body = ErrorPage 400\<rparr>, db)"
  using assms by (simp add: changeCurrentPassword_def changeCurrentPassword_body_def handler_defs)

theorem change_password_wrong_old_witness:
  "changeCurrentPassword ex_env (ex_req [(''oldPassword'', JStr ''guess''), (''newPassword'', JStr ''n3w'')] JUndefined)
      [7 \<mapsto> ex_user] = (Some \<lparr>status = 400, resp_body = ErrorPage 400\<rparr>, [7 \<mapsto> ex_user])"
  using change_password_wrong_old [where db = "[7 \<mapsto> ex_user]" and u = ex_user and E = ex_env
      and req = "ex_req [(''oldPassword'', JStr ''guess''), (''newPassword'', JStr ''n3w'')] JUndefined"
      and b = "[(''oldPassword'', JStr ''guess''), (''newPassword'', JStr ''n3w'')]" and old = "''guess''"]
  by (simp add: ex_defs)

text \<open>
  C3: after a successful password change the old password no longer verifies against
  the stored hash and the new one does, provided the key-derivation function separates
  the two passwords' 72-byte prefixes.
\<close>

theorem old_password_rejected_after_change:
  assumes "req_body req = JObj b" and "get b ''oldPassword'' = JStr old" and "get b ''newPassword'' = JStr new"
    and "opt_get (req_user req) ''_id'' = JOid (u_id u)" and "db (u_id u) = Some u"
    and "bcrypt_compare E (JStr old) (u_password u) = Inr True"
    and "inj_on (kdf E (next_salt E)) {s. length s \<le> 72}" and "take 72 old \<noteq> take 72 new"
  shows "\<exists>u'. snd (changeCurrentPassword E req db) (u_id u) = Some u'
           \<and> bcrypt_compare E (JStr new) (u_password u') = Inr True
           \<and> bcrypt_compare E (JStr old) (u_password u') = Inr False"
proof -
  have "kdf E (next_salt E) (take 72 old) \<noteq> kdf E (next_salt E) (take 72 new)"
    using assms(7,8) by (auto dest: inj_onD)
  then show ?thesis
    using assms(1-6)
    by (simp add: changeCurrentPassword_def changeCurrentPassword_body_def handler_defs bcrypt_hash_def)
qed

theorem old_password_rejected_after_change_witness:
  "\<exists>u'. snd (changeCurrentPassword ex_env
              (ex_req [(''oldPassword'', JStr ''secret''), (''newPassword'', JStr ''n3w'')] JUndefined)
              [7 \<mapsto> ex_user]) 7 = Some u'
      \<and> bcrypt_compare ex_env (JStr ''n3w'') (u_password u') = Inr True
      \<and> bcrypt_compare ex_env (JStr ''secret'') (u_password u') = Inr False"
  using old_password_rejected_after_change [where db = "[7 \<mapsto> ex_user]" and u = ex_user and E = ex_env
      and req = "ex_req [(''oldPassword'', JStr ''secret''), (''newPassword'', JStr ''n3w'')] JUndefined"
      and b = "[(''oldPassword'', JStr ''secret''), (''newPassword'', JStr ''n3w'')]"
      and old = "''secret''" and new = "''n3w''"]
  by (simp add: ex_defs inj_on_def)

text \<open>
  C4: bcrypt reads only the first 72 bytes of a password, so \<open>changeCurrentPassword\<close>
  accepts as "old password" any string that agrees with the real one on its first 72
  bytes, and changes the password.
\<close>

theorem bcrypt_prefix_accepted:
  assumes "req_body req = JObj b" and "get b ''oldPassword'' = JStr guess" and "get b ''newPassword'' = JStr new"
    and "opt_get (req_user req) ''_id'' = JOid (u_id u)" and "db (u_id u) = Some u"
    and "u_password u = BHash salt (kdf E salt (take 72 orig))" and "take 72 guess = take 72 orig"
  shows "fst (changeCurrentPassword E req db) =
           Some (json_response 200 (ApiResponse 200 (JObj []) ''Password changed successfully''))"
  using assms by (simp add: changeCurrentPassword_def changeCurrentPassword_body_def handler_defs)

theorem bcrypt_prefix_accepted_witness:
  "replicate 72 CHR ''a'' @ ''1'' \<noteq> replicate 72 CHR ''a'' @ ''2''
   \<and> fst (changeCurrentPassword ex_env
            (ex_req [(''oldPassword'', JStr (replicate 72 CHR ''a'' @ ''2'')), (''newPassword'', JStr ''n3w'')] JUndefined)
            [7 \<mapsto> ex_user\<lparr>u_password := BHash 0 (replicate 72 CHR ''a'')\<rparr>])
     = Some (json_response 200 (ApiResponse 200 (JObj []) ''Password changed successfully''))"
proof -
  have "take 72 (replicate 72 CHR ''a'' @ ''2'') = take 72 (replicate 72 CHR ''a'' @ ''1'')"
    by (simp add: take_append)
  then show ?thesis
    using bcrypt_prefix_accepted [where db = "[7 \<mapsto> ex_user\<lparr>u_password := BHash 0 (replicate 72 CHR ''a'')\<rparr>]"
        and u = "ex_user\<lparr>u_password := BHash 0 (replicate 72 CHR ''a'')\<rparr>" and E = ex_env
        and req = "ex_req [(''oldPassword'', JStr (replicate 72 CHR ''a'' @ ''2'')), (''newPassword'', JStr ''n3w'')] JUndefined"
        and b = "[(''oldPassword'', JStr (replicate 72 CHR ''a'' @ ''2'')), (''newPassword'', JStr ''n3w'')]"
        and guess = "replicate 72 CHR ''a'' @ ''2''" and new = "''n3w''" and salt = 0
        and orig = "replicate 72 CHR ''a'' @ ''1''"]
    by (simp add: ex_defs take_append)
qed

text \<open>
  C5: \<open>updateAccountDetails\<close> answers 400 ("All fields are required") and writes
  nothing when \<open>fullName\<close> or \<open>email\<close> is missing or falsy.
\<close>

theorem update_account_requires_fields:
  assumes "req_body req = JObj b" and "\<not> truthy (get b ''fullName'') \<or> \<not> truthy (get b ''email'')"
  shows "updateAccountDetails E req db = (Some \<lparr>status = 400, resp_body = ErrorPage 400\<rparr>, db)"
  using assms by (auto simp: updateAccountDetails_def updateAccountDetails_body_def asyncHandler_def)

theorem update_account_requires_fields_witness:
  "updateAccountDetails ex_env (ex_req [(''fullName'', JStr ''Bob''), (''email'', JStr [])] JUndefined)
      [7 \<mapsto> ex_user] = (Some \<lparr>status = 400, resp_body = ErrorPage 400\<rparr>, [7 \<mapsto> ex_user])"
  using update_account_requires_fields [where db = "[7 \<mapsto> ex_user]" and E = ex_env
      and req = "ex_req [(''fullName'', JStr ''Bob''), (''email'', JStr [])] JUndefined"
      and b = "[(''fullName'', JStr ''Bob''), (''email'', JStr [])]"]
  by (simp add: ex_defs)

text \<open>
  C6: \<open>updateAccountDetails\<close> with non-empty string \<open>fullName\<close> and \<open>email\<close> for a
  stored user sets both paths, and answers 200 with the updated document without its
  password.
\<close>

theorem update_account_success:
  assumes "req_body req = JObj b" and "get b ''fullName'' = JStr fn" and "fn \<noteq> []"
    and "get b ''email'' = JStr em" and "em \<noteq> []"
    and "opt_get (req_user req) ''_id'' = JOid w" and "db w = Some u"
  shows "updateAccountDetails E req db =
           (Some (json_response 200 (ApiResponse 200 (user_json (u\<lparr>u_fullName := fn, u_email := em\<rparr>))
                    ''Account details updated successfully'')),
            db(w \<mapsto> u\<lparr>u_fullName := fn, u_email := em\<rparr>))"
  using assms by (simp add: updateAccountDetails_def updateAccountDetails_body_def handler_defs)

theorem update_account_success_witness:
  "updateAccountDetails ex_env (ex_req [(''fullName'', JStr ''Bob''), (''email'', JStr ''bob@example.com'')] JUndefined)
      [7 \<mapsto> ex_user] =
     (Some (json_response 200 (ApiResponse 200
        (user_json (ex_user\<lparr>u_fullName := ''Bob'', u_email := ''bob@example.com''\<rparr>))
        ''Account details updated successfully'')),
      [7 \<mapsto> ex_user\<lparr>u_fullName := ''Bob'', u_email := ''bob@example.com''\<rparr>])"
  using update_account_success [where db = "[7 \<mapsto> ex_user]" and E = ex_env and w = 7 and u = ex_user
      and req = "ex_req [(''fullName'', JStr ''Bob''), (''email'', JStr ''bob@example.com'')] JUndefined"
      and b = "[(''fullName'', JStr ''Bob''), (''email'', JStr ''bob@example.com'')]"
      and fn = "''Bob''" and em = "''bob@example.com''"]
  by (simp add: ex_defs)

text \<open>
  C7: \<open>updateUserAvatar\<close>, on a successful upload, stores the new URL in the user's
  \<open>avatar\<close> and then sends no response at all: the handler has no \<open>res.json\<close> after
  the update, so the client's request hangs.
\<close>

theorem avatar_success_sends_nothing:
  assumes "opt_get (req_file req) ''path'' = JStr path" and "path \<noteq> []"
    and "uploadOnCloudinary E (JStr path) = JObj r" and "get r ''url'' = JStr url" and "url \<noteq> []"
    and "opt_get (req_user req) ''_id'' = JOid w" and "db w = Some u"
  shows "updateUserAvatar E req db = (None, db(w \<mapsto> u\<lparr>u_avatar := url\<rparr>))"
  using assms by (simp add: updateUserAvatar_def updateUserAvatar_body_def handler_defs Let_def)

theorem avatar_success_sends_nothing_witness:
  "updateUserAvatar ex_env (ex_req [] (JObj [(''path'', JStr ''public/temp/a.png'')])) [7 \<mapsto> ex_user] =
     (None, [7 \<mapsto> ex_user\<lparr>u_avatar := ''http://res.cloudinary.com/x.png''\<rparr>])"
  using avatar_success_sends_nothing [where db = "[7 \<mapsto> ex_user]" and E = ex_env and w = 7 and u = ex_user
      and req = "ex_req [] (JObj [(''path'', JStr ''public/temp/a.png'')])" and path = "''public/temp/a.png''"
      and r = "[(''url'', JStr ''http://res.cloudinary.com/x.png'')]" and url = "''http://res.cloudinary.com/x.png''"]
  by (simp add: ex_defs)

text \<open>
  C8: when the upload fails (\<open>uploadOnCloudinary\<close> resolves to \<open>null\<close>),
  \<open>updateUserAvatar\<close> reads \<open>avatar.url\<close> on \<open>null\<close> and the \<open>TypeError\<close>
  becomes a 500 answer: the guard meant to answer 400 ("Error while uploading on
  Cloudinary") is never reached. Nothing is written.
\<close>

theorem avatar_upload_null_500:
  assumes "opt_get (req_file req) ''path'' = JStr path" and "path \<noteq> []"
    and "uploadOnCloudinary E (JStr path) = JNull"
  shows "updateUserAvatar E req db = (Some \<lparr>status = 500, resp_body = ErrorPage 500\<rparr>, db)"
  using assms by (simp add: updateUserAvatar_def updateUserAvatar_body_def handler_defs Let_def)

theorem avatar_upload_null_500_witness:
  "updateUserAvatar ex_env_down (ex_req [] (JObj [(''path'', JStr ''public/temp/a.png'')])) [7 \<mapsto> ex_user] =
     (Some \<lparr>status = 500, resp_body = ErrorPage 500\<rparr>, [7 \<mapsto> ex_user])"
  using avatar_upload_null_500 [where db = "[7 \<mapsto> ex_user]" and E = ex_env_down
      and req = "ex_req [] (JObj [(''path'', JStr ''public/temp/a.png'')])" and path = "''public/temp/a.png''"]
  by (simp add: ex_defs)

text \<open>
  C9: \<open>updateUserAvatar\<close> never sends a successful answer: every response it sends is
  an error page.
\<close>

theorem avatar_never_succeeds:
  "fst (updateUserAvatar E req db) = Some r \<Longrightarrow> resp_body r = ErrorPage (status r)"
  by (auto simp: updateUserAvatar_def updateUserAvatar_body_def asyncHandler_def Let_def
        split: sum.splits option.splits if_splits prod.splits)

theorem avatar_never_succeeds_witness:
  "resp_body \<lparr>status = 400, resp_body = ErrorPage 400\<rparr> = ErrorPage 400
   \<and> fst (updateUserAvatar ex_env (ex_req [] JUndefined) [7 \<mapsto> ex_user]) = Some \<lparr>status = 400, resp_body = ErrorPage 400\<rparr>"
  using avatar_never_succeeds [where E = ex_env and req = "ex_req [] JUndefined" and db = "[7 \<mapsto> ex_user]"
      and r = "\<lparr>status = 400, resp_body = ErrorPage 400\<rparr>"]
  by (simp add: ex_defs updateUserAvatar_def updateUserAvatar_body_def asyncHandler_def Let_def)

text \<open>
  C10: \<open>updateUserCoverImage\<close>, on a successful upload, stores the URL in the user's
  \<open>coverImage\<close> and answers 200 with the updated document without its password.
\<close>

theorem cover_image_success:
  assumes "opt_get (req_file req) ''path'' = JStr path" and "path \<noteq> []"
    and "uploadOnCloudinary E (JStr path) = JObj r" and "get r ''url'' = JStr url" and "url \<noteq> []"
    and "opt_get (req_user req) ''_id'' = JOid w" and "db w = Some u"
  shows "updateUserCoverImage E req db =
           (Some (json_response 200 (ApiResponse 200 (user_json (u\<lparr>u_coverImage := url\<rparr>))
                    ''Cover image updated successfully'')),
            db(w \<mapsto> u\<lparr>u_coverImage := url\<rparr>))"
  using assms by (simp add: updateUserCoverImage_def updateUserCoverImage_body_def handler_defs Let_def)

theorem cover_image_success_witness:
  "updateUserCoverImage ex_env (ex_req [] (JObj [(''path'', JStr ''public/temp/c.png'')])) [7 \<mapsto> ex_user] =
     (Some (json_response 200 (ApiResponse 200
        (user_json (ex_user\<lparr>u_coverImage := ''http://res.cloudinary.com/x.png''\<rparr>))
        ''Cover image updated successfully'')),
      [7 \<mapsto> ex_user\<lparr>u_coverImage := ''http://res.cloudinary.com/x.png''\<rparr>])"
  using cover_image_success [where db = "[7 \<mapsto> ex_user]" and E = ex_env and w = 7 and u = ex_user
      and req = "ex_req [] (JObj [(''path'', JStr ''public/temp/c.png'')])" and path = "''public/temp/c.png''"
      and r = "[(''url'', JStr ''http://res.cloudinary.com/x.png'')]" and url = "''http://res.cloudinary.com/x.png''"]
  by (simp add: ex_defs)

text \<open>
  C25: without an authenticated user (\<open>req.user?._id\<close> is \<open>undefined\<close> or \<open>null\<close>),
  \<open>findById\<close> finds nothing and \<open>user.isPasswordCorrect\<close> is read on \<open>null\<close>:
  \<open>changeCurrentPassword\<close> answers 500, not an authentication error, and writes nothing.
\<close>

theorem change_password_no_user_500:
  assumes "req_body req = JObj b" and "opt_get (req_user req) ''_id'' \<in> {JUndefined, JNull}"
  shows "changeCurrentPassword E req db = (Some \<lparr>status = 500, resp_body = ErrorPage 500\<rparr>, db)"
  using assms by (auto simp: changeCurrentPassword_def changeCurrentPassword_body_def handler_defs)

theorem change_password_no_user_500_witness:
  "changeCurrentPassword ex_env
      \<lparr>req_body = JObj [(''oldPassword'', JStr ''secret''), (''newPassword'', JStr ''n3w'')],
       req_user = JUndefined, req_file = JUndefined\<rparr> [7 \<mapsto> ex_user]
     = (Some \<lparr>status = 500, resp_body = ErrorPage 500\<rparr>, [7 \<mapsto> ex_user])"
  using change_password_no_user_500 [where E = ex_env and db = "[7 \<mapsto> ex_user]"
      and req = "\<lparr>req_body = JObj [(''oldPassword'', JStr ''secret''), (''newPassword'', JStr ''n3w'')],
                  req_user = JUndefined, req_file = JUndefined\<rparr>"
      and b = "[(''oldPassword'', JStr ''secret''), (''newPassword'', JStr ''n3w'')]"]
  by simp

text \<open>
  C26: an array \<open>fullName\<close> passes the presence check (arrays are truthy) and then fails
  Mongoose's \<open>String\<close> cast in the update: \<open>updateAccountDetails\<close> answers 500
  instead of a 400 validation error, and writes nothing.
\<close>

theorem update_account_array_name_500:
  assumes "req_body req = JObj b" and "get b ''fullName'' = JArr vs" and "truthy (get b ''email'')"
  shows "updateAccountDetails E req db = (Some \<lparr>status = 500, resp_body = ErrorPage 500\<rparr>, db)"
  using assms by (simp add: updateAccountDetails_def updateAccountDetails_body_def handler_defs)

theorem update_account_array_name_500_witness:
  "updateAccountDetails ex_env (ex_req [(''fullName'', JArr [JStr ''Bob'']), (''email'', JStr ''bob@example.com'')] JUndefined)
      [7 \<mapsto> ex_user] = (Some \<lparr>status = 500, resp_body = ErrorPage 500\<rparr>, [7 \<mapsto> ex_user])"
  using update_account_array_name_500 [where E = ex_env and db = "[7 \<mapsto> ex_user]"
      and req = "ex_req [(''fullName'', JArr [JStr ''Bob'']), (''email'', JStr ''bob@example.com'')] JUndefined"
      and b = "[(''fullName'', JArr [JStr ''Bob'']), (''email'', JStr ''bob@example.com'')]" and vs = "[JStr ''Bob'']"]
  by (simp add: ex_defs)

end
