(* ===== verification/UserSessions.thy ===== *)
theory UserSessions
  imports UserController
begin

text \<open>
  The user controllers as a server sees them: a request names one of the five
  exported handlers, and the server runs many requests against one user collection.
  Node runs a handler's synchronous code without interruption, but another request can
  run at every \<open>await\<close>. Four handlers touch the collection once (one
  \<open>findByIdAndUpdate\<close>, or nothing), so they act on it atomically;
  \<open>changeCurrentPassword\<close> reads the user (\<open>findById\<close>) and writes it back
  (\<open>user.save\<close>) two awaits later, so it is split into a load step and a save step,
  with other requests free to run between them. The step relation \<open>cstep\<close> is this
  interleaving semantics; \<open>serve\<close> is the sequential one.
\<close>

subsection \<open>Dispatch and sequential service\<close>

datatype user_op = ChangeCurrentPassword | GetCurrentUser | UpdateAccountDetails
  | UpdateUserAvatar | UpdateUserCoverImage

fun handle :: "user_op \<Rightarrow> env \<Rightarrow> request \<Rightarrow> db \<Rightarrow> response option \<times> db" where
  "handle ChangeCurrentPassword = changeCurrentPassword"
| "handle GetCurrentUser = getCurrentUser"
| "handle UpdateAccountDetails = updateAccountDetails"
| "handle UpdateUserAvatar = updateUserAvatar"
| "handle UpdateUserCoverImage = updateUserCoverImage"

text \<open>The user a request acts on: the ObjectId its authenticated user's \<open>_id\<close> casts to.\<close>

definition target :: "request \<Rightarrow> oid option" where
  "target req = (case cast_id (opt_get (req_user req) ''_id'') of Inr (Some w) \<Rightarrow> Some w | _ \<Rightarrow> None)"

text \<open>A collection is well formed when every document is stored under its own \<open>_id\<close>.\<close>

definition wf_db :: "db \<Rightarrow> bool" where
  "wf_db db = (\<forall>w u. db w = Some u \<longrightarrow> u_id u = w)"

fun serve :: "(user_op \<times> env \<times> request) list \<Rightarrow> db \<Rightarrow> response option list \<times> db" where
  "serve [] db = ([], db)"
| "serve ((op, E, req) # rs) db =
     (let (r, db') = handle op E req db; (out, db'') = serve rs db' in (r # out, db''))"

subsection \<open>The password change in two steps\<close>

text \<open>
  Lines 3--16 of \<open>changeCurrentPassword\<close>: destructure the body, load the user, check the
  old password and assign the new one; the result is the user's id and the password to
  hash.
\<close>

definition cp_load :: "env \<Rightarrow> request \<Rightarrow> db \<Rightarrow> exn + oid \<times> string" where
  "cp_load E req db =
     (case prop_read (req_body req) ''oldPassword'' of Inl e \<Rightarrow> Inl e | Inr oldPassword \<Rightarrow>
      case prop_read (req_body req) ''newPassword'' of Inl e \<Rightarrow> Inl e | Inr newPassword \<Rightarrow>
      case findById db (opt_get (req_user req) ''_id'') of
        Inl e \<Rightarrow> Inl e
      | Inr None \<Rightarrow> Inl (TypeError ''Cannot read properties of null (reading isPasswordCorrect)'')
      | Inr (Some user) \<Rightarrow>
          (case isPasswordCorrect E user oldPassword of
             Inl e \<Rightarrow> Inl e
           | Inr False \<Rightarrow> Inl (ApiError 400 ''Old invalid password'')
           | Inr True \<Rightarrow> (case password_value newPassword of Inl e \<Rightarrow> Inl e | Inr s \<Rightarrow> Inr (u_id user, s))))"

text \<open>Lines 17--26: save the hashed password and answer.\<close>

definition cp_finish :: "env \<Rightarrow> oid \<Rightarrow> string \<Rightarrow> db \<Rightarrow> (exn + response option) \<times> db" where
  "cp_finish E w s db =
     (case save_password db w (bcrypt_hash E s) of
        None \<Rightarrow> (Inl (LibError ''No document found''), db)
      | Some db' \<Rightarrow>
          (Inr (Some (json_response 200 (ApiResponse 200 (JObj []) ''Password changed successfully''))), db'))"

text \<open>What \<open>asyncHandler\<close> sends for a body's outcome.\<close>

definition outcome :: "exn + response option \<Rightarrow> response option" where
  "outcome r = (case r of Inl e \<Rightarrow> Some \<lparr>status = error_status e, resp_body = ErrorPage (error_status e)\<rparr> | Inr ro \<Rightarrow> ro)"

subsection \<open>Interleaved service\<close>

text \<open>
  A request in flight: not started, a password change between its load and its save,
  or finished with the response it sent.
\<close>

datatype task = Pending user_op env request | Loaded env oid string | Finished "response option"

inductive cstep :: "task list \<times> db \<Rightarrow> task list \<times> db \<Rightarrow> bool" where
  atomic: "i < length ts \<Longrightarrow> ts ! i = Pending op E req \<Longrightarrow> op \<noteq> ChangeCurrentPassword \<Longrightarrow>
     cstep (ts, db) (ts[i := Finished (fst (handle op E req db))], snd (handle op E req db))"
| load_fail: "i < length ts \<Longrightarrow> ts ! i = Pending ChangeCurrentPassword E req \<Longrightarrow> cp_load E req db = Inl e \<Longrightarrow>
     cstep (ts, db) (ts[i := Finished (outcome (Inl e))], db)"
| load: "i < length ts \<Longrightarrow> ts ! i = Pending ChangeCurrentPassword E req \<Longrightarrow> cp_load E req db = Inr (w, s) \<Longrightarrow>
     cstep (ts, db) (ts[i := Loaded E w s], db)"
| save: "i < length ts \<Longrightarrow> ts ! i = Loaded E w s \<Longrightarrow>
     cstep (ts, db) (ts[i := Finished (outcome (fst (cp_finish E w s db)))], snd (cp_finish E w s db))"

code_pred cstep .

lemmas handle_defs = handler_defs changeCurrentPassword_def changeCurrentPassword_body_def
  getCurrentUser_def getCurrentUser_body_def updateAccountDetails_def updateAccountDetails_body_def
  updateUserAvatar_def updateUserAvatar_body_def updateUserCoverImage_def updateUserCoverImage_body_def

inductive_cases cstep_elims: "cstep (ts, db) (ts', db')"

subsection \<open>Lemmas\<close>

lemma asyncHandler_outcome: "asyncHandler h req s = (outcome (fst (h req s)), snd (h req s))"
  by (simp add: asyncHandler_def outcome_def split: prod.split sum.split)

lemma changeCurrentPassword_body_steps:
  "changeCurrentPassword_body E req db =
     (case cp_load E req db of Inl e \<Rightarrow> (Inl e, db) | Inr (w, s) \<Rightarrow> cp_finish E w s db)"
  by (auto simp: changeCurrentPassword_body_def cp_load_def cp_finish_def
      split: sum.splits option.splits bool.splits)

lemma changeCurrentPassword_steps:
  "changeCurrentPassword E req db =
     (case cp_load E req db of
        Inl e \<Rightarrow> (outcome (Inl e), db)
      | Inr (w, s) \<Rightarrow> (outcome (fst (cp_finish E w s db)), snd (cp_finish E w s db)))"
  by (simp add: changeCurrentPassword_def asyncHandler_outcome changeCurrentPassword_body_steps
      split: sum.split)

text \<open>
  C12: a handler changes the collection only at the user its request is authenticated
  as: every document other than \<open>req.user._id\<close>'s is left as it was.
\<close>

theorem handle_frame:
  "wf_db db \<Longrightarrow> snd (handle op E req db) k \<noteq> db k \<Longrightarrow> target req = Some k"
  by (cases op)
     (auto simp: target_def wf_db_def handle_defs Let_def
        split: sum.splits option.splits if_splits prod.splits bool.splits)

lemma ApiResponse_has_key [simp]:
  "has_key k (ApiResponse n d m) = (k \<in> {''statusCode'', ''data'', ''message'', ''success''} \<or> has_key k d)"
  by (auto simp: ApiResponse_def)

lemma select_password_no_password [simp]:
  "\<not> has_key ''password'' (select_exclude [''password''] (doc_json uo))"
  by (cases uo) (simp_all add: doc_json_def user_doc_def)

text \<open>
  C11: the four handlers that do not echo \<open>req.user\<close> never send a JSON body with a
  \<open>password\<close> key, at any depth: the two that send the user they updated send it
  through \<open>.select("-password")\<close>. (\<open>getCurrentUser\<close> sends \<open>req.user\<close> as the
  authentication middleware built it, which the repository does not contain.)
\<close>

theorem no_password_leak:
  assumes "op \<noteq> GetCurrentUser" and "fst (handle op E req db) = Some r" and "resp_body r = JsonBody v"
  shows "\<not> has_key ''password'' v"
  using assms
  by (cases op)
     (auto simp: changeCurrentPassword_def changeCurrentPassword_body_def updateAccountDetails_def
        updateAccountDetails_body_def updateUserAvatar_def updateUserAvatar_body_def updateUserCoverImage_def
        updateUserCoverImage_body_def asyncHandler_def findById_def findByIdAndUpdate_def cast_id_def
        isPasswordCorrect_def password_value_def save_password_def cast_set_def Let_def json_response_def
        split: sum.splits option.splits if_splits prod.splits bool.splits)

lemma cp_load_ok:
  assumes "req_body req = JObj b" and "get b ''oldPassword'' = JStr old" and "get b ''newPassword'' = JStr new"
    and "opt_get (req_user req) ''_id'' = JOid (u_id u)" and "db (u_id u) = Some u"
    and "bcrypt_compare E (JStr old) (u_password u) = Inr True"
  shows "cp_load E req db = Inr (u_id u, new)"
  using assms by (simp add: cp_load_def handler_defs)

lemma cp_load_wrong:
  assumes "req_body req = JObj b" and "get b ''oldPassword'' = JStr old"
    and "opt_get (req_user req) ''_id'' = JOid (u_id u)" and "db (u_id u) = Some u"
    and "bcrypt_compare E (JStr old) (u_password u) = Inr False"
  shows "cp_load E req db = Inl (ApiError 400 ''Old invalid password'')"
  using assms by (simp add: cp_load_def handler_defs)

lemma cp_finish_ok:
  "db w = Some u \<Longrightarrow>
   cp_finish E w s db =
     (Inr (Some (json_response 200 (ApiResponse 200 (JObj []) ''Password changed successfully''))),
      db(w \<mapsto> u\<lparr>u_password := bcrypt_hash E s\<rparr>))"
  by (simp add: cp_finish_def save_password_def)

lemma bcrypt_compare_hash:
  assumes "inj_on (kdf E (next_salt E)) {s. length s \<le> 72}"
  shows "bcrypt_compare E (JStr p) (bcrypt_hash E q) = Inr (take 72 p = take 72 q)"
  using assms by (auto simp: bcrypt_hash_def dest: inj_onD)

text \<open>
  C13: two concurrent password changes of the same user, both with the right old
  password, can both answer 200 while only the second new password is stored: the
  first request's change is lost (each loads the user before the other saves).
\<close>

theorem concurrent_password_changes_lose_one:
  assumes "req_body ra = JObj ba" and "get ba ''oldPassword'' = JStr old" and "get ba ''newPassword'' = JStr a"
    and "opt_get (req_user ra) ''_id'' = JOid (u_id u)"
    and "req_body rb = JObj bb" and "get bb ''oldPassword'' = JStr old" and "get bb ''newPassword'' = JStr b"
    and "opt_get (req_user rb) ''_id'' = JOid (u_id u)"
    and "db (u_id u) = Some u" and "bcrypt_compare E (JStr old) (u_password u) = Inr True"
  shows "cstep\<^sup>*\<^sup>* ([Pending ChangeCurrentPassword E ra, Pending ChangeCurrentPassword E rb], db)
           ([Finished (Some (json_response 200 (ApiResponse 200 (JObj []) ''Password changed successfully''))),
             Finished (Some (json_response 200 (ApiResponse 200 (JObj []) ''Password changed successfully'')))],
            db(u_id u \<mapsto> u\<lparr>u_password := bcrypt_hash E b\<rparr>))"
proof -
  let ?ok = "Some (json_response 200 (ApiResponse 200 (JObj []) ''Password changed successfully''))"
  let ?w = "u_id u" and ?db1 = "db(u_id u \<mapsto> u\<lparr>u_password := bcrypt_hash E a\<rparr>)"
  have la: "cp_load E ra db = Inr (?w, a)" using assms(1-4,9,10) by (rule cp_load_ok)
  have lb: "cp_load E rb db = Inr (?w, b)" using assms(5-10) by (rule cp_load_ok)
  have 1: "cstep ([Pending ChangeCurrentPassword E ra, Pending ChangeCurrentPassword E rb], db)
                 ([Loaded E ?w a, Pending ChangeCurrentPassword E rb], db)"
    using cstep.load [of 0 "[Pending ChangeCurrentPassword E ra, Pending ChangeCurrentPassword E rb]"] la by simp
  have 2: "cstep ([Loaded E ?w a, Pending ChangeCurrentPassword E rb], db) ([Loaded E ?w a, Loaded E ?w b], db)"
    using cstep.load [of 1 "[Loaded E ?w a, Pending ChangeCurrentPassword E rb]"] lb by simp
  have 3: "cstep ([Loaded E ?w a, Loaded E ?w b], db) ([Finished ?ok, Loaded E ?w b], ?db1)"
    using cstep.save [of 0 "[Loaded E ?w a, Loaded E ?w b]" E ?w a db] cp_finish_ok [where db = db, OF assms(9)]
    by (simp add: outcome_def)
  have "?db1 ?w = Some (u\<lparr>u_password := bcrypt_hash E a\<rparr>)" by simp
  then have 4: "cstep ([Finished ?ok, Loaded E ?w b], ?db1)
                  ([Finished ?ok, Finished ?ok], db(?w \<mapsto> u\<lparr>u_password := bcrypt_hash E b\<rparr>))"
    using cstep.save [of 1 "[Finished ?ok, Loaded E ?w b]" E ?w b ?db1] cp_finish_ok
    by (simp add: outcome_def)
  from 1 2 3 4 show ?thesis
    by (meson converse_rtranclp_into_rtranclp rtranclp.rtrancl_refl)
qed

text \<open>
  C14: run one after the other, the same two requests do not both succeed: the second
  is refused with 400 because its old password no longer matches. The outcome of C13 is
  not one any sequential order produces.
\<close>

theorem serial_password_changes_conflict:
  assumes "req_body ra = JObj ba" and "get ba ''oldPassword'' = JStr old" and "get ba ''newPassword'' = JStr a"
    and "opt_get (req_user ra) ''_id'' = JOid (u_id u)"
    and "req_body rb = JObj bb" and "get bb ''oldPassword'' = JStr old" and "get bb ''newPassword'' = JStr b"
    and "opt_get (req_user rb) ''_id'' = JOid (u_id u)"
    and "db (u_id u) = Some u" and "bcrypt_compare E (JStr old) (u_password u) = Inr True"
    and "inj_on (kdf E (next_salt E)) {s. length s \<le> 72}" and "take 72 old \<noteq> take 72 a"
  shows "serve [(ChangeCurrentPassword, E, ra), (ChangeCurrentPassword, E, rb)] db =
           ([Some (json_response 200 (ApiResponse 200 (JObj []) ''Password changed successfully'')),
             Some \<lparr>status = 400, resp_body = ErrorPage 400\<rparr>],
            db(u_id u \<mapsto> u\<lparr>u_password := bcrypt_hash E a\<rparr>))"
proof -
  let ?db1 = "db(u_id u \<mapsto> u\<lparr>u_password := bcrypt_hash E a\<rparr>)"
  have la: "cp_load E ra db = Inr (u_id u, a)" using assms(1-4,9,10) by (rule cp_load_ok)
  have "bcrypt_compare E (JStr old) (u_password (u\<lparr>u_password := bcrypt_hash E a\<rparr>)) = Inr False"
    using bcrypt_compare_hash [OF assms(11)] assms(12) by simp
  then have lb: "cp_load E rb ?db1 = Inl (ApiError 400 ''Old invalid password'')"
    using assms(5,6,8) by (intro cp_load_wrong [where u = "u\<lparr>u_password := bcrypt_hash E a\<rparr>"]) simp_all
  show ?thesis
    using la lb cp_finish_ok [where db = db, OF assms(9)]
    by (simp add: changeCurrentPassword_steps outcome_def)
qed

lemma error_status_range: "400 \<le> error_status e \<and> error_status e < 600"
  by (cases e) simp_all

text \<open>
  C24: every status the handlers send is 200 or an error status between 400 and 599.
\<close>

theorem handle_status_bounds:
  "fst (handle op E req db) = Some r \<Longrightarrow> status r = 200 \<or> (400 \<le> status r \<and> status r < 600)"
  by (cases op)
     (auto simp: handle_defs Let_def json_response_def error_status_range
        split: sum.splits option.splits if_splits prod.splits bool.splits)

subsection \<open>Witnesses\<close>

theorem handle_frame_witness:
  "target (ex_req [(''fullName'', JStr ''Bob''), (''email'', JStr ''bob@example.com'')] JUndefined) = Some 7"
  using handle_frame [where db = "[7 \<mapsto> ex_user]" and op = UpdateAccountDetails and E = ex_env and k = 7
      and req = "ex_req [(''fullName'', JStr ''Bob''), (''email'', JStr ''bob@example.com'')] JUndefined"]
  by (simp add: wf_db_def ex_defs handle_defs)

theorem concurrent_password_changes_lose_one_witness:
  "cstep\<^sup>*\<^sup>* ([Pending ChangeCurrentPassword ex_env (ex_req [(''oldPassword'', JStr ''secret''), (''newPassword'', JStr ''alpha'')] JUndefined),
               Pending ChangeCurrentPassword ex_env (ex_req [(''oldPassword'', JStr ''secret''), (''newPassword'', JStr ''beta'')] JUndefined)],
              [7 \<mapsto> ex_user])
     ([Finished (Some (json_response 200 (ApiResponse 200 (JObj []) ''Password changed successfully''))),
       Finished (Some (json_response 200 (ApiResponse 200 (JObj []) ''Password changed successfully'')))],
      [7 \<mapsto> ex_user\<lparr>u_password := BHash 1 ''beta''\<rparr>])"
  using concurrent_password_changes_lose_one [where db = "[7 \<mapsto> ex_user]" and u = ex_user and E = ex_env
      and ra = "ex_req [(''oldPassword'', JStr ''secret''), (''newPassword'', JStr ''alpha'')] JUndefined"
      and ba = "[(''oldPassword'', JStr ''secret''), (''newPassword'', JStr ''alpha'')]"
      and rb = "ex_req [(''oldPassword'', JStr ''secret''), (''newPassword'', JStr ''beta'')] JUndefined"
      and bb = "[(''oldPassword'', JStr ''secret''), (''newPassword'', JStr ''beta'')]"
      and old = "''secret''" and a = "''alpha''" and b = "''beta''"]
  by (simp add: ex_defs bcrypt_hash_def)

theorem serial_password_changes_conflict_witness:
  "serve [(ChangeCurrentPassword, ex_env, ex_req [(''oldPassword'', JStr ''secret''), (''newPassword'', JStr ''alpha'')] JUndefined),
          (ChangeCurrentPassword, ex_env, ex_req [(''oldPassword'', JStr ''secret''), (''newPassword'', JStr ''beta'')] JUndefined)]
      [7 \<mapsto> ex_user] =
     ([Some (json_response 200 (ApiResponse 200 (JObj []) ''Password changed successfully'')),
       Some \<lparr>status = 400, resp_body = ErrorPage 400\<rparr>],
      [7 \<mapsto> ex_user\<lparr>u_password := BHash 1 ''alpha''\<rparr>])"
  using serial_password_changes_conflict [where db = "[7 \<mapsto> ex_user]" and u = ex_user and E = ex_env
      and ra = "ex_req [(''oldPassword'', JStr ''secret''), (''newPassword'', JStr ''alpha'')] JUndefined"
      and ba = "[(''oldPassword'', JStr ''secret''), (''newPassword'', JStr ''alpha'')]"
      and rb = "ex_req [(''oldPassword'', JStr ''secret''), (''newPassword'', JStr ''beta'')] JUndefined"
      and bb = "[(''oldPassword'', JStr ''secret''), (''newPassword'', JStr ''beta'')]"
      and old = "''secret''" and a = "''alpha''" and b = "''beta''"]
  by (simp add: ex_defs bcrypt_hash_def inj_on_def)

theorem handle_status_bounds_witness:
  "fst (handle UpdateAccountDetails ex_env (ex_req [] JUndefined) [7 \<mapsto> ex_user])
     = Some \<lparr>status = 400, resp_body = ErrorPage 400\<rparr>
   \<and> (status \<lparr>status = 400, resp_body = ErrorPage 400\<rparr> = 200
      \<or> (400 \<le> status \<lparr>status = 400, resp_body = ErrorPage 400\<rparr> \<and> status \<lparr>status = 400, resp_body = ErrorPage 400\<rparr> < 600))"
proof -
  have r: "fst (handle UpdateAccountDetails ex_env (ex_req [] JUndefined) [7 \<mapsto> ex_user])
     = Some \<lparr>status = 400, resp_body = ErrorPage 400\<rparr>"
    by (simp add: handle_defs ex_defs)
  show ?thesis using handle_status_bounds [OF r] r by blast
qed

theorem no_password_leak_witness:
  "fst (handle UpdateAccountDetails ex_env
          (ex_req [(''fullName'', JStr ''Bob''), (''email'', JStr ''bob@example.com'')] JUndefined) [7 \<mapsto> ex_user])
     = Some (json_response 200 (ApiResponse 200
          (user_json (ex_user\<lparr>u_fullName := ''Bob'', u_email := ''bob@example.com''\<rparr>))
          ''Account details updated successfully''))
   \<and> \<not> has_key ''password'' (ApiResponse 200
          (user_json (ex_user\<lparr>u_fullName := ''Bob'', u_email := ''bob@example.com''\<rparr>))
          ''Account details updated successfully'')"
proof -
  have r: "fst (handle UpdateAccountDetails ex_env
          (ex_req [(''fullName'', JStr ''Bob''), (''email'', JStr ''bob@example.com'')] JUndefined) [7 \<mapsto> ex_user])
     = Some (json_response 200 (ApiResponse 200
          (user_json (ex_user\<lparr>u_fullName := ''Bob'', u_email := ''bob@example.com''\<rparr>))
          ''Account details updated successfully''))"
    by (simp add: handle_defs ex_defs)
  show ?thesis
    using no_password_leak [OF _ r] r by (simp add: json_response_def)
qed

end
