(* ===== verification/JokesServer.thy ===== *)
theory JokesServer
  imports Prelude
begin

text \<open>
  The Express server of \<open>src/Backend Frontend Connection/Backend/index.js\<close>: two
  \<open>GET\<close> routes, \<open>/api/jokes\<close> (a fixed list of five jokes, sent as JSON) and \<open>/\<close>
  (the text "Server is ready"), and the port it listens on. A request is its method and
  its request target; the server's answer is computed as Express computes it:
  \<^item> a route path is matched against the URL's path name (the part before \<open>?\<close>),
    case-insensitively and with an optional trailing slash (Express's defaults,
    \<open>caseSensitive: false\<close> and \<open>strict: false\<close>), and the first matching route runs;
  \<^item> a \<open>GET\<close> route also answers \<open>HEAD\<close>, with the same status and no body;
  \<^item> an \<open>OPTIONS\<close> request on a routed path gets Express's automatic answer, 200 with
    the allowed methods \<open>GET,HEAD\<close>;
  \<^item> anything else falls through to Express's final handler: 404.
  \<open>res.send\<close> of an array sends JSON and of a string sends HTML, both with status 200.
  Headers, the \<open>X-Powered-By\<close> banner and the log line of \<open>app.listen\<close> are not
  modelled.
\<close>

datatype http_method = GET | HEAD | POST | PUT | PATCH | DELETE | OPTIONS

record http_request =
  request_method :: http_method
  url :: string

text \<open>Lines 6--32: the jokes the first route sends.\<close>

definition joke :: "int \<Rightarrow> string \<Rightarrow> string \<Rightarrow> jsval" where
  "joke i t c = JObj [(''id'', JNum i), (''title'', JStr t), (''content'', JStr c)]"

definition jokes :: "jsval list" where
  "jokes =
     [joke 1 ''Programming Joke'' ''Why do programmers prefer dark mode? Because light attracts bugs!'',
      joke 2 ''Dad Joke'' ''Why don't scientists trust atoms? Because they make up everything!'',
      joke 3 ''Pun Joke'' ''I used to be a baker because I kneaded dough.'',
      joke 4 ''Math Joke''
        ''Why was the equal sign so humble? Because he knew he wasn't less than or greater than anyone else.'',
      joke 5 ''Nature Joke'' ''Why did the scarecrow win an award? Because he was outstanding in his field!'']"

text \<open>The two route handlers (lines 5--34 and 36--38); neither reads the request.\<close>

definition get_api_jokes :: "http_request \<Rightarrow> response" where
  "get_api_jokes req = \<lparr>status = 200, resp_body = JsonBody (JArr jokes)\<rparr>"

definition get_root :: "http_request \<Rightarrow> response" where
  "get_root req = \<lparr>status = 200, resp_body = HtmlBody ''Server is ready''\<rparr>"

text \<open>The routes in registration order; both are registered with \<open>app.get\<close>.\<close>

definition app_routes :: "(string \<times> (http_request \<Rightarrow> response)) list" where
  "app_routes = [(''/api/jokes'', get_api_jokes), (''/'', get_root)]"

text \<open>
  Path matching. A route path without parameters compiles to the regular expression
  \<open>^path\/?$\<close> with the \<open>i\<close> flag, or \<open>^path?$\<close> when the path ends with a slash
  (its last slash made optional). Without the \<open>u\<close> flag, \<open>i\<close> folds only the ASCII
  letters onto the ASCII letters of the route path.
\<close>

definition lower_ascii :: "char \<Rightarrow> char" where
  "lower_ascii c =
     (case map_of (zip ''ABCDEFGHIJKLMNOPQRSTUVWXYZ'' ''abcdefghijklmnopqrstuvwxyz'') c of
        Some l \<Rightarrow> l
      | None \<Rightarrow> c)"

definition route_matches :: "string \<Rightarrow> string \<Rightarrow> bool" where
  "route_matches r p =
     (let rl = map lower_ascii r; pl = map lower_ascii p in
      if r \<noteq> [] \<and> last r = CHR ''/'' then pl = rl \<or> pl = butlast rl else pl = rl \<or> pl = rl @ ''/'')"

text \<open>The path name of a request target in origin form: everything before the query.\<close>

definition pathname :: "string \<Rightarrow> string" where
  "pathname u = takeWhile (\<lambda>c. c \<noteq> CHR ''?'') u"

fun find_route :: "(string \<times> 'h) list \<Rightarrow> string \<Rightarrow> 'h option" where
  "find_route [] p = None"
| "find_route ((r, h) # rs) p = (if route_matches r p then Some h else find_route rs p)"

definition not_found :: response where
  "not_found = \<lparr>status = 404, resp_body = ErrorPage 404\<rparr>"

text \<open>The application on one request.\<close>

definition app :: "http_request \<Rightarrow> response" where
  "app req =
     (let p = pathname (url req) in
      case request_method req of
        GET \<Rightarrow> (case find_route app_routes p of Some h \<Rightarrow> h req | None \<Rightarrow> not_found)
      | HEAD \<Rightarrow> (case find_route app_routes p of Some h \<Rightarrow> h req | None \<Rightarrow> not_found)\<lparr>resp_body := NoBody\<rparr>
      | OPTIONS \<Rightarrow>
          (case find_route app_routes p of
             Some h \<Rightarrow> \<lparr>status = 200, resp_body = HtmlBody ''GET,HEAD''\<rparr>
           | None \<Rightarrow> not_found)
      | _ \<Rightarrow> not_found)"

text \<open>Line 40: \<open>process.env.PORT || 3000\<close>, with \<open>PORT\<close> unset (\<open>undefined\<close>) or a string.\<close>

definition port :: "jsval \<Rightarrow> jsval" where
  "port env_PORT = (if truthy env_PORT then env_PORT else JNum 3000)"

subsection \<open>Routing\<close>

lemma route_matches_api_jokes:
  "route_matches ''/api/jokes'' p = (map lower_ascii p \<in> {''/api/jokes'', ''/api/jokes/''})"
  by (auto simp: route_matches_def lower_ascii_def)

lemma map_lower_ascii_Nil [simp]: "(map lower_ascii p = []) = (p = [])"
  by simp

lemma route_matches_root: "route_matches ''/'' p = (p = [] \<or> map lower_ascii p = ''/'')"
  by (auto simp: route_matches_def lower_ascii_def)

lemma find_route_app_routes:
  "find_route app_routes p =
     (if route_matches ''/api/jokes'' p then Some get_api_jokes
      else if route_matches ''/'' p then Some get_root else None)"
  by (simp add: app_routes_def)

text \<open>
  C21: a \<open>GET\<close> request whose path is \<open>/api/jokes\<close>, in any letter case, with or
  without a trailing slash and with any query string, is answered 200 with the five
  jokes as JSON.
\<close>

theorem get_api_jokes_response:
  assumes "request_method req = GET" and "map lower_ascii (pathname (url req)) \<in> {''/api/jokes'', ''/api/jokes/''}"
  shows "app req = \<lparr>status = 200, resp_body = JsonBody (JArr jokes)\<rparr>"
  using assms by (simp add: app_def find_route_app_routes route_matches_api_jokes get_api_jokes_def)

theorem get_api_jokes_response_witness:
  "app \<lparr>request_method = GET, url = ''/API/Jokes/?page=2''\<rparr> = \<lparr>status = 200, resp_body = JsonBody (JArr jokes)\<rparr>"
  using get_api_jokes_response [of "\<lparr>request_method = GET, url = ''/API/Jokes/?page=2''\<rparr>"]
  by (simp add: pathname_def lower_ascii_def)

text \<open>
  C22: a \<open>GET\<close> request for \<open>/\<close> (with any query string) is answered 200 with the
  HTML text "Server is ready".
\<close>

theorem get_root_response:
  assumes "request_method req = GET" and "pathname (url req) = ''/''"
  shows "app req = \<lparr>status = 200, resp_body = HtmlBody ''Server is ready''\<rparr>"
  using assms by (simp add: app_def find_route_app_routes route_matches_api_jokes route_matches_root
      lower_ascii_def get_root_def)

theorem get_root_response_witness:
  "app \<lparr>request_method = GET, url = ''/?from=home''\<rparr> = \<lparr>status = 200, resp_body = HtmlBody ''Server is ready''\<rparr>"
  using get_root_response [of "\<lparr>request_method = GET, url = ''/?from=home''\<rparr>"] by (simp add: pathname_def)

text \<open>
  C23: the status of every answer: 200 exactly when the method is \<open>GET\<close>, \<open>HEAD\<close> or
  \<open>OPTIONS\<close> and the path matches one of the two routes, and 404 otherwise.
\<close>

theorem app_status:
  "status (app req) =
     (if request_method req \<in> {GET, HEAD, OPTIONS}
         \<and> (route_matches ''/api/jokes'' (pathname (url req)) \<or> route_matches ''/'' (pathname (url req)))
      then 200 else 404)"
  by (cases "request_method req")
     (simp_all add: app_def find_route_app_routes get_api_jokes_def get_root_def not_found_def Let_def)

end
