(* ===== verification/Spec2Isabelle.thy ===== *)
theory Spec2Isabelle
  imports Models UserSessions JokesServer
begin

text \<open>
  \<^bold>\<open>A verification development of the Backend-Development-MERN repository.\<close>

  The repository holds three independent pieces of a Node/Express/Mongoose back end:
  \<^item> Mongoose models (\<open>src/Data Modelling for backend with Mongoose/\<close>): an e-commerce
    order with embedded order items, a todo and its sub-todos, and a hospital patient and
    medical record. They are declarations; what they mean is what Mongoose does with them
    when a document is created.
  \<^item> User account controllers (\<open>src/Update Controller for user/user.controller.js\<close>):
    five Express handlers (\<open>changeCurrentPassword\<close>, \<open>getCurrentUser\<close>,
    \<open>updateAccountDetails\<close>, \<open>updateUserAvatar\<close>, \<open>updateUserCoverImage\<close>) that read
    the request, the \<open>User\<close> collection and Cloudinary, and answer in JSON.
  \<^item> A jokes server (\<open>src/Backend Frontend Connection/Backend/index.js\<close>): an
    Express app with two \<open>GET\<close> routes, \<open>/api/jokes\<close> (five jokes as JSON) and
    \<open>/\<close>, listening on \<open>process.env.PORT || 3000\<close>.
  The three pieces do not call each other; inside the controllers, the handlers share
  the \<open>User\<close> collection, and Node interleaves concurrent requests at their awaits.

  \<^bold>\<open>Theories.\<close>
  \<^item> \<open>Prelude\<close>: JavaScript values (\<open>jsval\<close>, objects as association lists where the
    last binding wins), truthiness, optional chaining \<open>x?.k\<close> (\<open>opt_get\<close>) and strict
    property read \<open>x.k\<close> (\<open>prop_read\<close>, a \<open>TypeError\<close> on \<open>null\<close>/\<open>undefined\<close>),
    the exceptions the code raises, HTTP responses, and shared list/map lemmas.
  \<^item> \<open>JsConv\<close>: the string conversions Mongoose applies when casting: decimal
    integers and the 24-digit hexadecimal form of a 96-bit ObjectId (\<open>96 word\<close>), with
    their round trips.
  \<^item> \<open>MongooseSchema\<close>: a schema as a \<open>datatype\<close> of path types (\<open>String\<close>,
    \<open>Number\<close>, \<open>Boolean\<close>, \<open>ObjectId\<close> with its \<open>ref\<close>, \<open>Date\<close>, arrays and
    sub-documents) with \<open>required\<close>, \<open>default\<close> and \<open>enum\<close>; \<open>Model.create\<close> as
    \<open>create\<close>: cast every path, apply defaults (arrays default to \<open>[]\<close>), drop
    unknown keys (strict mode), validate, add timestamps, or fail with the list of path
    errors. Its main lemma is type soundness: a stored document conforms to its schema.
    JavaScript numbers are integer-valued here, and a string casts to a number only when it
    is a decimal integer within \<open>2^53\<close>, where the double is exact.
  \<^item> \<open>Models\<close>: the five schemas of the repository, each a value of that datatype
    translated path by path, and what they guarantee of stored documents.
  \<^item> \<open>UserController\<close>: the five handlers, each a function from an environment
    (bcrypt's key derivation, the next salt, Cloudinary's answer), a request and the user
    collection (a map from ObjectId to user) to the response sent (or none) and the
    collection after the handler; \<open>asyncHandler\<close> turns a thrown error into the
    error status. The helpers the file imports but the repository does not contain
    (\<open>asyncHandler\<close>, \<open>ApiError\<close>, \<open>ApiResponse\<close>, the \<open>User\<close> model,
    \<open>uploadOnCloudinary\<close>) are modelled from their documented behaviour.
  \<^item> \<open>UserSessions\<close>: the handlers dispatched by name, run in sequence (\<open>serve\<close>) and
    interleaved (\<open>cstep\<close>, an inductive step relation over the requests in flight and
    the collection): Node can run another request at each \<open>await\<close>, and the only
    handler that reads the collection and writes it back later is
    \<open>changeCurrentPassword\<close>, split into \<open>cp_load\<close> and \<open>cp_finish\<close> (proved
    equal to the handler's body when run back to back).
  \<^item> \<open>JokesServer\<close>: the app as a function from a request (method and URL) to the
    response: \<open>app_routes\<close> holds the two handlers in registration order, and
    \<open>route_matches\<close>, \<open>find_route\<close> and \<open>app\<close> are Express's dispatch with its
    defaults (case-insensitive paths, optional trailing slash, query ignored, \<open>HEAD\<close>
    answered by the \<open>GET\<close> route without body, automatic \<open>OPTIONS\<close>, 404 otherwise);
    \<open>port\<close> is line 40.

  \<^bold>\<open>What is proved.\<close>
  \<^item> C1--C10 (\<open>UserController\<close>): the response and the writes of each handler on each
    branch: password change success and refusal, the old password rejected after a
    change, bcrypt's 72-byte truncation accepting a wrong old password, the required
    fields of \<open>updateAccountDetails\<close>, and \<open>updateUserAvatar\<close>'s two defects (it never
    answers after a successful update, and a failed upload gives 500 rather than 400).
  \<^item> C11--C14 (\<open>UserSessions\<close>): no handler but \<open>getCurrentUser\<close> sends a password
    (the user documents the query returns carry the hash, and the handlers' projection
    removes it); a handler writes only its own user; two concurrent password changes can
    both succeed while one is lost, and the same two requests in sequence cannot.
  \<^item> C15--C20 (\<open>Models\<close>): order item status values and default, the fields a stored
    patient has, every stored patient's gender rejected by the medical-record schema,
    the todo's required content and defaults.
  \<^item> C21--C23 (\<open>JokesServer\<close>): the two routes' answers and the status of every
    answer (200 or 404).
  \<^item> C24--C26: every status the handlers send is 200 or in 400--599; the 500 answers for
    a missing authenticated user and for an array \<open>fullName\<close>.
  \<^item> C27--C28 (\<open>Models\<close>): the required paths of orders and medical records.

  \<^bold>\<open>Not modelled.\<close> MongoDB itself (a collection is a map, each single-document
  operation atomic), response headers, the network, the upload's file system, bcrypt's
  internals (its key derivation is a parameter; only the 72-byte truncation and the salt
  are modelled), \<open>app.listen\<close>'s socket handling (a non-numeric \<open>PORT\<close> is a pipe
  name to Node) and its log line, \<open>Number\<close> of fractional, exponent, hexadecimal and
  out-of-range strings (a cast error here, a double in Mongoose), and the routes of the
  controllers (the repository registers none). No fuel is used: every function of the
  model is total and structurally or measure-recursive, and the interleaving is an
  inductive relation.
\<close>

end
